theory Spec2Isabelle
  imports Complex_Main
begin

section \<open>Values\<close>

text \<open>
  The server exchanges JSON with the editor, and the fields it reads from a decoded
  message are not checked: a field holds whatever value the message carried. \<open>pyval\<close>
  is the type of these values. A float is the rational number it denotes; infinities and
  NaN have no value here. Integers are unbounded.
\<close>

datatype pyval =
    PNone
  | PBool bool
  | PInt int
  | PFloat rat
  | PStr string
  | PList "pyval list"
  | PDict "(string \<times> pyval) list"

text \<open>A decoded JSON object, and any other \<open>Dict[str, Any]\<close> of the source.\<close>

type_synonym pydict = "string \<rightharpoonup> pyval"

text \<open>\<open>d.get(k, default)\<close>.\<close>

definition dict_get :: "pydict \<Rightarrow> string \<Rightarrow> pyval \<Rightarrow> pyval" where
  "dict_get d k dflt = (case d k of None \<Rightarrow> dflt | Some v \<Rightarrow> v)"

text \<open>The truth value of \<open>if v:\<close>.\<close>

fun truthy :: "pyval \<Rightarrow> bool" where
  "truthy PNone = False"
| "truthy (PBool b) = b"
| "truthy (PInt i) = (i \<noteq> 0)"
| "truthy (PFloat r) = (r \<noteq> 0)"
| "truthy (PStr s) = (s \<noteq> [])"
| "truthy (PList vs) = (vs \<noteq> [])"
| "truthy (PDict kvs) = (kvs \<noteq> [])"

text \<open>The exceptions that the modelled code can raise.\<close>

datatype exn = OverflowError | TypeError

section \<open>Message model\<close>

subsection \<open>Command\<close>

text \<open>
  The dataclass \<open>Command\<close>, with the field types it declares. Commands are built by the
  callers of the dispatcher.
\<close>

record command =
  action :: string
  parameters :: pydict
  auto_run :: bool
  request_id :: string

definition command_reserved :: "string list" where
  "command_reserved = [''action'', ''auto_run'', ''request_id'']"

text \<open>
  \<open>Command.to_dict\<close>: \<open>action\<close> and \<open>auto_run\<close> first, then every parameter written
  over them (\<open>result.update\<close>), then \<open>request_id\<close> when it is not empty.
\<close>

definition command_to_dict :: "command \<Rightarrow> pydict" where
  "command_to_dict c =
     (let result = [''action'' \<mapsto> PStr (action c), ''auto_run'' \<mapsto> PBool (auto_run c)];
          result = result ++ parameters c
      in if request_id c \<noteq> [] then result(''request_id'' \<mapsto> PStr (request_id c))
         else result)"

text \<open>
  \<open>Command.from_dict\<close> reads the three reserved keys with their defaults and takes every
  other key as a parameter. It checks no type: on a mapping whose \<open>action\<close>,
  \<open>auto_run\<close> or \<open>request_id\<close> is not of the declared field type Python builds an
  object that the record \<open>command\<close> has no value for, and the model gives \<open>None\<close>.
\<close>

definition command_from_dict :: "pydict \<Rightarrow> command option" where
  "command_from_dict d =
     (case (dict_get d ''action'' (PStr ''''),
            dict_get d ''auto_run'' (PBool False),
            dict_get d ''request_id'' (PStr '''')) of
        (PStr a, PBool b, PStr i) \<Rightarrow>
          Some \<lparr>action = a,
                parameters = (\<lambda>k. if k \<in> set command_reserved then None else d k),
                auto_run = b,
                request_id = i\<rparr>
      | _ \<Rightarrow> None)"

subsection \<open>Response\<close>

text \<open>
  The dataclass \<open>Response\<close>. Responses are built by \<open>from_dict\<close> from what the editor
  sent, so every field but \<open>data\<close> holds an unchecked value. The field \<open>action\<close> of the
  source is \<open>resp_action\<close> here, since a record field name is global.
\<close>

record response =
  status :: pyval
  resp_action :: pyval
  error :: pyval
  error_type :: pyval
  error_details :: pyval
  data :: pydict
  timestamp :: pyval

definition response_reserved :: "string list" where
  "response_reserved = [''status'', ''action'', ''error'', ''type'', ''error_details'']"

text \<open>The constructor \<open>Response(status, ...)\<close> with the defaults of the dataclass.\<close>

definition Response :: "pyval \<Rightarrow> response" where
  "Response st =
     \<lparr>status = st, resp_action = PStr '''', error = PStr '''', error_type = PStr '''',
      error_details = PDict [], data = Map.empty, timestamp = PFloat 0\<rparr>"

definition is_success :: "response \<Rightarrow> bool" where
  "is_success r = (status r = PStr ''success'')"

definition is_error :: "response \<Rightarrow> bool" where
  "is_error r = (status r = PStr ''error'')"

text \<open>\<open>Response.to_dict\<close>: the optional keys are written when their value is truthy.\<close>

definition response_to_dict :: "response \<Rightarrow> pydict" where
  "response_to_dict r =
     (let result = [''status'' \<mapsto> status r];
          result = (if truthy (resp_action r) then result(''action'' \<mapsto> resp_action r)
                    else result);
          result = (if truthy (error r) then result(''error'' \<mapsto> error r) else result);
          result = (if truthy (error_type r) then result(''error_type'' \<mapsto> error_type r)
                    else result);
          result = (if truthy (error_details r)
                    then result(''error_details'' \<mapsto> error_details r) else result)
      in result ++ data r)"

text \<open>
  \<open>Response.from_dict\<close>: seven reads of a dict, none of which can raise. The wire key
  of \<open>error_type\<close> is \<open>type\<close>; \<open>timestamp\<close> is not reserved, so it is also kept in
  \<open>data\<close>.
\<close>

definition response_from_dict :: "pydict \<Rightarrow> response" where
  "response_from_dict d =
     \<lparr>status = dict_get d ''status'' (PStr ''unknown''),
      resp_action = dict_get d ''action'' (PStr ''''),
      error = dict_get d ''error'' (PStr ''''),
      error_type = dict_get d ''type'' (PStr ''''),
      error_details = dict_get d ''error_details'' (PDict []),
      data = (\<lambda>k. if k \<in> set response_reserved then None else d k),
      timestamp = dict_get d ''timestamp'' (PFloat 0)\<rparr>"

section \<open>Retry engine\<close>

text \<open>
  One entry of \<open>retry_history\<close>: the dict with the keys \<open>request_id\<close>, \<open>command\<close>,
  \<open>response\<close>, \<open>attempt\<close> and \<open>timestamp\<close>.
\<close>

record retry_record =
  rr_request_id :: string
  rr_command :: pydict
  rr_response :: pydict
  rr_attempt :: nat
  rr_timestamp :: string

text \<open>
  The state of a \<open>RetryEngine\<close>. A counter is created at 0 and only ever incremented,
  so it is a natural number.
\<close>

record retry_engine =
  retry_count :: "string \<rightharpoonup> nat"
  retry_history :: "retry_record list"

definition MAX_RETRIES :: nat where
  "MAX_RETRIES = 5"

definition RETRY_DELAY_BASE :: rat where
  "RETRY_DELAY_BASE = 1"

definition RETRY_DELAY_MAX :: rat where
  "RETRY_DELAY_MAX = 10"

text \<open>\<open>self.retry_count.get(request_id, 0)\<close>.\<close>

definition count_of :: "retry_engine \<Rightarrow> string \<Rightarrow> nat" where
  "count_of re rid = (case retry_count re rid of None \<Rightarrow> 0 | Some n \<Rightarrow> n)"

definition should_retry :: "retry_engine \<Rightarrow> string \<Rightarrow> bool" where
  "should_retry re rid = (count_of re rid < MAX_RETRIES)"

text \<open>
  \<open>2 ** count\<close> is an integer, and the product \<open>RETRY_DELAY_BASE * (2 ** count)\<close>
  first converts it to a float. Every power of two up to \<open>2 ** 1023\<close> is a float, so
  the conversion and the product are exact there; from \<open>2 ** 1024\<close> on the integer
  is beyond the largest float and the conversion raises \<open>OverflowError\<close>.
\<close>

definition float_of_pow2 :: "nat \<Rightarrow> exn + rat" where
  "float_of_pow2 count = (if count < 1024 then Inr (2 ^ count) else Inl OverflowError)"

definition get_retry_delay :: "retry_engine \<Rightarrow> string \<Rightarrow> exn + rat" where
  "get_retry_delay re rid =
     (let count = count_of re rid
      in case float_of_pow2 count of
           Inl e \<Rightarrow> Inl e
         | Inr p \<Rightarrow> (let delay = RETRY_DELAY_BASE * p in Inr (min delay RETRY_DELAY_MAX)))"

text \<open>
  \<open>record_attempt\<close>; \<open>now\<close> is the text that \<open>datetime.now().isoformat()\<close> gives at
  the call.
\<close>

definition record_attempt ::
  "string \<Rightarrow> string \<Rightarrow> command \<Rightarrow> response \<Rightarrow> retry_engine \<Rightarrow> retry_engine" where
  "record_attempt now rid c r re =
     (let rc = (if rid \<notin> dom (retry_count re) then (retry_count re)(rid \<mapsto> 0)
                else retry_count re);
          n = (case rc rid of None \<Rightarrow> 0 | Some n \<Rightarrow> n) + 1;
          rc = rc(rid \<mapsto> n)
      in \<lparr>retry_count = rc,
          retry_history = retry_history re @
            [\<lparr>rr_request_id = rid, rr_command = command_to_dict c,
              rr_response = response_to_dict r, rr_attempt = n, rr_timestamp = now\<rparr>]\<rparr>)"

definition reset :: "string \<Rightarrow> retry_engine \<Rightarrow> retry_engine" where
  "reset rid re =
     (if rid \<in> dom (retry_count re) then re\<lparr>retry_count := (retry_count re)(rid := None)\<rparr>
      else re)"

definition can_continue :: "retry_engine \<Rightarrow> string \<Rightarrow> bool" where
  "can_continue re rid = should_retry re rid"

section \<open>Performance analyzer\<close>

text \<open>
  The dicts that \<open>analyze\<close> builds. The key \<open>value\<close> of an issue is \<open>issue_value\<close>,
  the key \<open>message\<close> of a recommendation is \<open>advice\<close>, and the key \<open>status\<close> of the
  analysis is \<open>verdict\<close>: a record field name is global.
\<close>

record issue =
  metric :: string
  issue_value :: pyval
  threshold :: pyval
  message :: string

record recommendation =
  priority :: string
  area :: string
  advice :: string

record analysis =
  verdict :: string
  issues :: "issue list"
  warnings :: "issue list"
  recommendations :: "recommendation list"

text \<open>
  The messages interpolate numbers into text: \<open>{fps:.1f}\<close> and \<open>{draw_calls}\<close>. How
  Python writes a number is not part of this program; the two conversions are parameters.
\<close>

record formatting =
  fixed1 :: "pyval \<Rightarrow> string"
  str_of :: "pyval \<Rightarrow> string"

definition fps_min :: pyval where "fps_min = PFloat 30"
definition fps_warning :: pyval where "fps_warning = PFloat 45"
definition draw_calls_max :: pyval where "draw_calls_max = PInt 5000"
definition draw_calls_warning :: pyval where "draw_calls_warning = PInt 3000"
definition node_count_max :: pyval where "node_count_max = PInt 2000"
definition node_count_warning :: pyval where "node_count_warning = PInt 1500"
definition memory_max_mb :: pyval where "memory_max_mb = PFloat 512"

text \<open>
  The number a value is compared as: an integer and a float compare by their exact
  values, and a bool is the integer 0 or 1.
\<close>

fun as_number :: "pyval \<Rightarrow> rat option" where
  "as_number (PBool b) = Some (if b then 1 else 0)"
| "as_number (PInt i) = Some (of_int i)"
| "as_number (PFloat r) = Some r"
| "as_number _ = None"

text \<open>
  \<open>v < t\<close> and \<open>v > t\<close> for a threshold \<open>t\<close>, which is a number: a value that is not
  a number raises \<open>TypeError\<close>.
\<close>

definition less_than :: "pyval \<Rightarrow> pyval \<Rightarrow> exn + bool" where
  "less_than v t =
     (case (as_number v, as_number t) of
        (Some a, Some b) \<Rightarrow> Inr (a < b)
      | _ \<Rightarrow> Inl TypeError)"

definition greater_than :: "pyval \<Rightarrow> pyval \<Rightarrow> exn + bool" where
  "greater_than v t =
     (case (as_number v, as_number t) of
        (Some a, Some b) \<Rightarrow> Inr (a > b)
      | _ \<Rightarrow> Inl TypeError)"

text \<open>\<open>sub in s\<close> on strings.\<close>

fun starts_with :: "string \<Rightarrow> string \<Rightarrow> bool" where
  "starts_with [] s = True"
| "starts_with (a # sub) [] = False"
| "starts_with (a # sub) (b # s) = (a = b \<and> starts_with sub s)"

fun contains :: "string \<Rightarrow> string \<Rightarrow> bool" where
  "contains sub [] = (sub = [])"
| "contains sub (b # s) = (starts_with sub (b # s) \<or> contains sub s)"

text \<open>The block \<open># Check FPS\<close>.\<close>

definition check_fps :: "formatting \<Rightarrow> pyval \<Rightarrow> analysis \<Rightarrow> exn + analysis" where
  "check_fps fmt fps a =
     (case less_than fps fps_min of
        Inl e \<Rightarrow> Inl e
      | Inr True \<Rightarrow>
          Inr (a\<lparr>verdict := ''critical'',
                 issues := issues a @
                   [\<lparr>metric = ''fps'', issue_value = fps, threshold = fps_min,
                     message = ''Critical FPS: '' @ fixed1 fmt fps\<rparr>]\<rparr>)
      | Inr False \<Rightarrow>
          (case less_than fps fps_warning of
             Inl e \<Rightarrow> Inl e
           | Inr True \<Rightarrow>
               Inr (a\<lparr>warnings := warnings a @
                        [\<lparr>metric = ''fps'', issue_value = fps, threshold = fps_warning,
                          message = ''Low FPS: '' @ fixed1 fmt fps\<rparr>]\<rparr>)
           | Inr False \<Rightarrow> Inr a))"

text \<open>The block \<open># Check draw calls\<close>.\<close>

definition check_draw_calls :: "formatting \<Rightarrow> pyval \<Rightarrow> analysis \<Rightarrow> exn + analysis" where
  "check_draw_calls fmt draw_calls a =
     (case greater_than draw_calls draw_calls_max of
        Inl e \<Rightarrow> Inl e
      | Inr True \<Rightarrow>
          Inr (a\<lparr>verdict := (if verdict a \<noteq> ''critical'' then ''critical'' else ''critical''),
                 issues := issues a @
                   [\<lparr>metric = ''draw_calls'', issue_value = draw_calls,
                     threshold = draw_calls_max,
                     message = ''Critical draw calls: '' @ str_of fmt draw_calls\<rparr>]\<rparr>)
      | Inr False \<Rightarrow>
          (case greater_than draw_calls draw_calls_warning of
             Inl e \<Rightarrow> Inl e
           | Inr True \<Rightarrow>
               (if \<not> contains ''warning'' (verdict a)
                then Inr (a\<lparr>warnings := warnings a @
                        [\<lparr>metric = ''draw_calls'', issue_value = draw_calls,
                          threshold = draw_calls_warning,
                          message = ''High draw calls: '' @ str_of fmt draw_calls\<rparr>]\<rparr>)
                else Inr a)
           | Inr False \<Rightarrow> Inr a))"

text \<open>The block \<open># Check node count\<close>.\<close>

definition check_node_count :: "formatting \<Rightarrow> pyval \<Rightarrow> analysis \<Rightarrow> exn + analysis" where
  "check_node_count fmt node_count a =
     (case greater_than node_count node_count_max of
        Inl e \<Rightarrow> Inl e
      | Inr True \<Rightarrow>
          Inr (a\<lparr>verdict := (if verdict a \<noteq> ''critical'' then ''critical'' else ''critical''),
                 issues := issues a @
                   [\<lparr>metric = ''node_count'', issue_value = node_count,
                     threshold = node_count_max,
                     message = ''Critical node count: '' @ str_of fmt node_count\<rparr>]\<rparr>)
      | Inr False \<Rightarrow>
          (case greater_than node_count node_count_warning of
             Inl e \<Rightarrow> Inl e
           | Inr True \<Rightarrow>
               Inr (a\<lparr>warnings := warnings a @
                        [\<lparr>metric = ''node_count'', issue_value = node_count,
                          threshold = node_count_warning,
                          message = ''High node count: '' @ str_of fmt node_count\<rparr>]\<rparr>)
           | Inr False \<Rightarrow> Inr a))"

text \<open>\<open>_generate_recommendations\<close>: one entry per issue of a known metric, then one per warning.\<close>

fun issue_recommendations :: "issue list \<Rightarrow> recommendation list" where
  "issue_recommendations [] = []"
| "issue_recommendations (i # is) =
     (if metric i = ''fps''
      then [\<lparr>priority = ''high'', area = ''frame_rate'',
              advice = ''Reduce shader complexity, implement LOD, enable occlusion culling''\<rparr>]
      else if metric i = ''draw_calls''
      then [\<lparr>priority = ''high'', area = ''draw_calls'',
              advice = ''Use MultiMeshInstance, enable GPU instancing, combine static meshes''\<rparr>]
      else if metric i = ''node_count''
      then [\<lparr>priority = ''high'', area = ''node_count'',
              advice = ''Merge static geometry, implement object pooling''\<rparr>]
      else [])
     @ issue_recommendations is"

fun warning_recommendations :: "formatting \<Rightarrow> issue list \<Rightarrow> recommendation list" where
  "warning_recommendations fmt [] = []"
| "warning_recommendations fmt (w # ws) =
     \<lparr>priority = ''medium'', area = metric w,
      advice = ''Monitor '' @ metric w @ '' - current: '' @ str_of fmt (issue_value w)\<rparr>
     # warning_recommendations fmt ws"

definition generate_recommendations :: "formatting \<Rightarrow> analysis \<Rightarrow> recommendation list" where
  "generate_recommendations fmt a =
     issue_recommendations (issues a) @ warning_recommendations fmt (warnings a)"

text \<open>
  \<open>PerformanceAnalyzer.analyze\<close>. \<open>memory_usage_mb\<close> is read and not used. A comparison
  that raises ends the call, so the three blocks are chained on their results.
\<close>

definition analyze :: "formatting \<Rightarrow> pydict \<Rightarrow> exn + analysis" where
  "analyze fmt report =
     (let a = \<lparr>verdict = ''ok'', issues = [], warnings = [], recommendations = []\<rparr>;
          fps = dict_get report ''fps'' (PFloat 60);
          draw_calls = dict_get report ''draw_calls'' (PInt 0);
          node_count = dict_get report ''node_count'' (PInt 0);
          memory_mb = dict_get report ''memory_usage_mb'' (PFloat 0)
      in case check_fps fmt fps a of
           Inl e \<Rightarrow> Inl e
         | Inr a \<Rightarrow>
        (case check_draw_calls fmt draw_calls a of
           Inl e \<Rightarrow> Inl e
         | Inr a \<Rightarrow>
        (case check_node_count fmt node_count a of
           Inl e \<Rightarrow> Inl e
         | Inr a \<Rightarrow> Inr (a\<lparr>recommendations := generate_recommendations fmt a\<rparr>))))"

section \<open>Command dispatcher\<close>

text \<open>One entry of \<open>command_history\<close>.\<close>

record history_entry =
  he_command :: pydict
  he_response :: pydict
  he_attempts :: nat
  he_timestamp :: string

text \<open>
  What the program takes from outside, as functions of how often it has asked:
  \<^item> \<open>exchange env k\<close> is the outcome of the \<open>k\<close>-th message handed to the connection by
    \<open>send_command\<close>: the JSON object received in reply, or \<open>None\<close> when sending or
    receiving raised, the 30 seconds ran out, or the text received was not a JSON object
    (\<open>send_command\<close> catches every exception and returns \<open>None\<close>);
  \<^item> \<open>uuid_hex8 env k\<close> is \<open>uuid.uuid4().hex[:8]\<close> at the \<open>k\<close>-th call;
  \<^item> \<open>now_iso env k\<close> is \<open>datetime.now().isoformat()\<close> at the \<open>k\<close>-th call.
\<close>

record env =
  exchange :: "nat \<Rightarrow> pydict option"
  uuid_hex8 :: "nat \<Rightarrow> string"
  now_iso :: "nat \<Rightarrow> string"

text \<open>
  The state of an \<open>AICommandDispatcher\<close> with its client and retry engine: \<open>connected\<close>
  stands for \<open>self.connected and self.websocket\<close> of the client. The last four fields
  record what the dispatcher did to the outside: the messages handed to the connection
  and the delays slept, oldest first, and how often the clock and the uuid generator were
  read. Logger calls are not modelled.
\<close>

record dispatcher =
  connected :: bool
  retry_engine :: retry_engine
  pending_commands :: "string \<rightharpoonup> command"
  command_history :: "history_entry list"
  sent :: "pydict list"
  slept :: "rat list"
  clock_reads :: nat
  uuid_reads :: nat

definition read_clock :: "env \<Rightarrow> dispatcher \<Rightarrow> string \<times> dispatcher" where
  "read_clock env s = (now_iso env (clock_reads s), s\<lparr>clock_reads := clock_reads s + 1\<rparr>)"

text \<open>\<open>await asyncio.sleep(delay)\<close>.\<close>

definition sleep :: "rat \<Rightarrow> dispatcher \<Rightarrow> dispatcher" where
  "sleep delay s = s\<lparr>slept := slept s @ [delay]\<rparr>"

text \<open>\<open>GodotAIClient.send_command\<close>.\<close>

definition send_command :: "env \<Rightarrow> command \<Rightarrow> dispatcher \<Rightarrow> response option \<times> dispatcher" where
  "send_command env c s =
     (if \<not> connected s then (None, s)
      else (map_option response_from_dict (exchange env (length (sent s))),
            s\<lparr>sent := sent s @ [command_to_dict c]\<rparr>))"

text \<open>\<open>_generate_request_id\<close>.\<close>

definition generate_request_id :: "env \<Rightarrow> dispatcher \<Rightarrow> string \<times> dispatcher" where
  "generate_request_id env s =
     (''req_'' @ uuid_hex8 env (uuid_reads s), s\<lparr>uuid_reads := uuid_reads s + 1\<rparr>)"

text \<open>
  \<open>_log_command\<close>: the entry is appended, and a history longer than 1000 is cut to its
  last 1000 entries (\<open>self.command_history[-1000:]\<close>).
\<close>

definition log_command :: "env \<Rightarrow> command \<Rightarrow> response \<Rightarrow> nat \<Rightarrow> dispatcher \<Rightarrow> dispatcher" where
  "log_command env c r attempts s =
     (let (now, s) = read_clock env s;
          entry = \<lparr>he_command = command_to_dict c, he_response = response_to_dict r,
                   he_attempts = attempts, he_timestamp = now\<rparr>;
          h = command_history s @ [entry];
          h = (if length h > 1000 then drop (length h - 1000) h else h)
      in s\<lparr>command_history := h\<rparr>)"

text \<open>The response that \<open>execute_command\<close> builds when it gives up on a dead connection.\<close>

definition communication_failure :: response where
  "communication_failure =
     (Response (PStr ''error''))
       \<lparr>error := PStr ''Failed to communicate with Godot Editor'',
        error_type := PStr ''communication''\<rparr>"

text \<open>
  How one pass through the body of the loop \<open>while True\<close> of \<open>execute_command\<close> ends:
  at a \<open>continue\<close> or at the end of the body, at a \<open>return\<close>, or with an exception.
\<close>

datatype pass = Continue | Return response | Raise exn

text \<open>
  The body of the loop, after \<open>attempts += 1\<close>. A reply that is neither a success nor
  an error falls through to the end of the body, with no sleep.
\<close>

definition loop_body ::
  "env \<Rightarrow> command \<Rightarrow> string \<Rightarrow> nat \<Rightarrow> dispatcher \<Rightarrow> pass \<times> dispatcher" where
  "loop_body env c rid attempts s =
     (let (response, s) = send_command env c s
      in case response of
           None \<Rightarrow>
             if can_continue (retry_engine s) rid
             then (case get_retry_delay (retry_engine s) rid of
                     Inl e \<Rightarrow> (Raise e, s)
                   | Inr delay \<Rightarrow> (Continue, sleep delay s))
             else (Return communication_failure, s)
         | Some response \<Rightarrow>
             (let (now, s) = read_clock env s;
                  s = s\<lparr>retry_engine := record_attempt now rid c response (retry_engine s)\<rparr>
              in if is_success response
                 then (let s = log_command env c response attempts s;
                           s = s\<lparr>retry_engine := reset rid (retry_engine s)\<rparr>
                       in (Return response, s))
                 else if is_error response
                 then (let error_type = error_type response
                       in if error_type \<in> set [PStr ''compile'', PStr ''runtime''] \<and>
                             can_continue (retry_engine s) rid
                          then (case get_retry_delay (retry_engine s) rid of
                                  Inl e \<Rightarrow> (Raise e, s)
                                | Inr delay \<Rightarrow> (Continue, sleep delay s))
                          else (Return response, log_command env c response attempts s))
                 else (Continue, s)))"

text \<open>
  The loop itself, entered with the number of attempts made so far. The result is \<open>None\<close>
  when the loop never ends, \<open>Inl\<close> when an exception leaves it, \<open>Inr\<close> when it returns
  a response.
\<close>

partial_function (option) command_loop ::
  "env \<Rightarrow> command \<Rightarrow> string \<Rightarrow> nat \<Rightarrow> dispatcher \<Rightarrow> ((exn + response) \<times> dispatcher) option" where
  "command_loop env c rid attempts s =
     (let attempts = attempts + 1
      in case loop_body env c rid attempts s of
           (Continue, s) \<Rightarrow> command_loop env c rid attempts s
         | (Return response, s) \<Rightarrow> Some (Inr response, s)
         | (Raise e, s) \<Rightarrow> Some (Inl e, s))"

text \<open>
  The first two statements of \<open>execute_command\<close>: the id of the command, generated when
  the command has none, is written into the command.
\<close>

definition assign_request_id :: "env \<Rightarrow> command \<Rightarrow> dispatcher \<Rightarrow> command \<times> dispatcher" where
  "assign_request_id env c s =
     (let (rid, s) = (if request_id c \<noteq> [] then (request_id c, s)
                      else generate_request_id env s)
      in (c\<lparr>request_id := rid\<rparr>, s))"

text \<open>
  \<open>execute_command\<close>. Its parameter \<open>max_retries\<close> is never read. Every \<open>return\<close> is
  inside the loop; the two statements after the loop, which would drop the id from
  \<open>pending_commands\<close>, are never reached.
\<close>

definition execute_command ::
  "env \<Rightarrow> command \<Rightarrow> dispatcher \<Rightarrow> ((exn + response) \<times> dispatcher) option" where
  "execute_command env c s =
     (let (c, s) = assign_request_id env c s;
          rid = request_id c;
          s = s\<lparr>pending_commands := (pending_commands s)(rid \<mapsto> c)\<rparr>
      in command_loop env c rid 0 s)"

text \<open>\<open>execute_batch\<close>: the loop over the commands, with the results so far.\<close>

fun batch_loop ::
  "env \<Rightarrow> command list \<Rightarrow> response list \<Rightarrow> dispatcher \<Rightarrow>
   ((exn + response list) \<times> dispatcher) option" where
  "batch_loop env [] results s = Some (Inr results, s)"
| "batch_loop env (c # commands) results s =
     (case execute_command env c s of
        None \<Rightarrow> None
      | Some (Inl e, s) \<Rightarrow> Some (Inl e, s)
      | Some (Inr response, s) \<Rightarrow>
          (let results = results @ [response]
           in if is_error response then Some (Inr results, s)
              else batch_loop env commands results s))"

definition execute_batch ::
  "env \<Rightarrow> command list \<Rightarrow> dispatcher \<Rightarrow> ((exn + response list) \<times> dispatcher) option" where
  "execute_batch env commands s = batch_loop env commands [] s"

text \<open>\<open>RetryEngine()\<close> and \<open>AICommandDispatcher(client)\<close> as the constructors leave them.\<close>

definition new_retry_engine :: retry_engine where
  "new_retry_engine = \<lparr>retry_count = Map.empty, retry_history = []\<rparr>"

definition new_dispatcher :: "bool \<Rightarrow> dispatcher" where
  "new_dispatcher conn =
     \<lparr>connected = conn, retry_engine = new_retry_engine, pending_commands = Map.empty,
      command_history = [], sent = [], slept = [], clock_reads = 0, uuid_reads = 0\<rparr>"

section \<open>Running commands in order\<close>

text \<open>
  What the specification says a batch does with the commands it attempts: they go
  through \<open>execute_command\<close> one at a time, in order, each on the state the one before
  left, and each response is appended. \<open>run_in_order\<close> does this for a whole list, with
  no stopping rule.
\<close>

fun run_in_order ::
  "env \<Rightarrow> command list \<Rightarrow> dispatcher \<Rightarrow> ((exn + response list) \<times> dispatcher) option" where
  "run_in_order env [] s = Some (Inr [], s)"
| "run_in_order env (c # commands) s =
     (case execute_command env c s of
        None \<Rightarrow> None
      | Some (Inl e, s) \<Rightarrow> Some (Inl e, s)
      | Some (Inr response, s) \<Rightarrow>
          (case run_in_order env commands s of
             None \<Rightarrow> None
           | Some (Inl e, s) \<Rightarrow> Some (Inl e, s)
           | Some (Inr responses, s) \<Rightarrow> Some (Inr (response # responses), s)))"

section \<open>Example runs\<close>

text \<open>Three commands with ids of their own, and editors that always answer the same way.\<close>

definition example_command :: "string \<Rightarrow> command" where
  "example_command rid =
     \<lparr>action = ''create_scene'', parameters = [''name'' \<mapsto> PStr ''MainScene''],
      auto_run = True, request_id = rid\<rparr>"

definition success_reply :: pydict where
  "success_reply = [''status'' \<mapsto> PStr ''success'']"

definition compile_error_reply :: pydict where
  "compile_error_reply =
     [''status'' \<mapsto> PStr ''error'', ''type'' \<mapsto> PStr ''compile'',
      ''error'' \<mapsto> PStr ''Parse error'']"

definition syntax_error_reply :: pydict where
  "syntax_error_reply =
     [''status'' \<mapsto> PStr ''error'', ''type'' \<mapsto> PStr ''invalid_syntax'']"

text \<open>An editor that replies to the \<open>k\<close>-th message with \<open>reply k\<close>.\<close>

definition editor :: "(nat \<Rightarrow> pydict option) \<Rightarrow> env" where
  "editor reply =
     \<lparr>exchange = reply, uuid_hex8 = (\<lambda>k. ''0a1b2c3d''),
      now_iso = (\<lambda>k. ''2024-01-01T00:00:00'')\<rparr>"

definition silent_editor :: env where
  "silent_editor = editor (\<lambda>k. None)"

definition success_editor :: env where
  "success_editor = editor (\<lambda>k. Some success_reply)"

definition compile_error_editor :: env where
  "compile_error_editor = editor (\<lambda>k. Some compile_error_reply)"

definition syntax_error_editor :: env where
  "syntax_error_editor = editor (\<lambda>k. Some syntax_error_reply)"

text \<open>The second message gets a syntax error, every other one a success.\<close>

definition second_fails_editor :: env where
  "second_fails_editor =
     editor (\<lambda>k. if k = 1 then Some syntax_error_reply else Some success_reply)"

definition pending_reply :: pydict where
  "pending_reply = [''status'' \<mapsto> PStr ''pending'']"

text \<open>
  An editor that answers the first 1023 messages with a status that is neither a success
  nor an error, and every later one with a syntax error.
\<close>

definition stalling_editor :: env where
  "stalling_editor =
     editor (\<lambda>k. if k < 1023 then Some pending_reply else Some syntax_error_reply)"

text \<open>A dispatcher whose history is full: 1000 entries of earlier commands.\<close>

definition old_entry :: history_entry where
  "old_entry =
     \<lparr>he_command = command_to_dict (example_command ''req_0''),
      he_response = response_to_dict (response_from_dict success_reply),
      he_attempts = 1, he_timestamp = ''2023-12-31T23:59:59''\<rparr>"

definition full_dispatcher :: dispatcher where
  "full_dispatcher = (new_dispatcher True)\<lparr>command_history := replicate 1000 old_entry\<rparr>"

section \<open>Properties of the message model\<close>

lemma command_to_dict_action:
  "''action'' \<notin> dom (parameters c) \<Longrightarrow> command_to_dict c ''action'' = Some (PStr (action c))"
  by (auto simp: command_to_dict_def Let_def map_add_def domIff split: option.splits)

lemma command_to_dict_auto_run:
  "''auto_run'' \<notin> dom (parameters c) \<Longrightarrow>
   command_to_dict c ''auto_run'' = Some (PBool (auto_run c))"
  by (auto simp: command_to_dict_def Let_def map_add_def domIff split: option.splits)

lemma command_to_dict_request_id:
  "''request_id'' \<notin> dom (parameters c) \<Longrightarrow>
   command_to_dict c ''request_id'' =
     (if request_id c \<noteq> [] then Some (PStr (request_id c)) else None)"
  by (auto simp: command_to_dict_def Let_def map_add_def domIff split: option.splits)

lemma command_to_dict_parameter:
  "k \<notin> set command_reserved \<Longrightarrow> command_to_dict c k = parameters c k"
  by (auto simp: command_to_dict_def command_reserved_def Let_def map_add_def
           split: option.splits)

text \<open>
  C5. For every command whose parameter keys do not collide with \<open>action\<close>, \<open>auto_run\<close>
  and \<open>request_id\<close>, decoding the encoding of the command gives the command back.
\<close>

theorem command_round_trip:
  assumes "dom (parameters c) \<inter> set command_reserved = {}"
  shows "command_from_dict (command_to_dict c) = Some c"
proof -
  from assms have a: "''action'' \<notin> dom (parameters c)"
    and b: "''auto_run'' \<notin> dom (parameters c)"
    and i: "''request_id'' \<notin> dom (parameters c)"
    by (auto simp: command_reserved_def)
  have p: "(\<lambda>k. if k \<in> set command_reserved then None else command_to_dict c k) = parameters c"
  proof
    fix k
    show "(if k \<in> set command_reserved then None else command_to_dict c k) = parameters c k"
    proof (cases "k \<in> set command_reserved")
      case True
      with assms have "k \<notin> dom (parameters c)" by blast
      with True show ?thesis by (simp add: domIff)
    next
      case False
      then show ?thesis by (simp add: command_to_dict_parameter)
    qed
  qed
  show ?thesis
    unfolding command_from_dict_def dict_get_def
    by (simp add: command_to_dict_action [OF a] command_to_dict_auto_run [OF b]
                  command_to_dict_request_id [OF i] p)
qed

theorem command_round_trip_witness:
  "command_from_dict
     (command_to_dict \<lparr>action = ''add_node'',
                       parameters = [''name'' \<mapsto> PStr ''Player'', ''node_type'' \<mapsto> PStr ''CharacterBody3D''],
                       auto_run = True, request_id = ''req_1''\<rparr>)
   = Some \<lparr>action = ''add_node'',
           parameters = [''name'' \<mapsto> PStr ''Player'', ''node_type'' \<mapsto> PStr ''CharacterBody3D''],
           auto_run = True, request_id = ''req_1''\<rparr>"
  by (rule command_round_trip) (simp add: command_reserved_def)

text \<open>
  C4. \<open>Response.from_dict\<close> is a total function of the mapping. When the key \<open>status\<close>
  is missing the decoded status is \<open>unknown\<close>; when the key is present the decoded
  status is the value the mapping holds, whatever it is, and a value other than
  \<open>success\<close> and \<open>error\<close> makes the response neither a success nor an error.
\<close>

theorem response_from_dict_status:
  "(d ''status'' = None \<longrightarrow> status (response_from_dict d) = PStr ''unknown'') \<and>
   (\<forall>v. d ''status'' = Some v \<longrightarrow>
      status (response_from_dict d) = v \<and>
      (v \<noteq> PStr ''success'' \<longrightarrow> \<not> is_success (response_from_dict d)) \<and>
      (v \<noteq> PStr ''error'' \<longrightarrow> \<not> is_error (response_from_dict d)))"
  by (simp add: response_from_dict_def dict_get_def is_success_def is_error_def)

theorem response_from_dict_status_witness:
  "status (response_from_dict Map.empty) = PStr ''unknown'' \<and>
   status (response_from_dict [''status'' \<mapsto> PStr ''pending'']) = PStr ''pending'' \<and>
   \<not> is_success (response_from_dict [''status'' \<mapsto> PStr ''pending'']) \<and>
   \<not> is_error (response_from_dict [''status'' \<mapsto> PStr ''pending''])"
  using response_from_dict_status [of Map.empty]
        response_from_dict_status [of "[''status'' \<mapsto> PStr ''pending'']"]
  by simp

text \<open>
  C4 as the specification has it fails: a status that is present and is neither
  \<open>success\<close> nor \<open>error\<close> is kept, not replaced by \<open>unknown\<close>.
\<close>

theorem response_from_dict_status_counterexample:
  "status (response_from_dict [''status'' \<mapsto> PStr ''pending'']) \<noteq> PStr ''unknown''"
  by (simp add: response_from_dict_def dict_get_def)

section \<open>Properties of the retry engine\<close>

lemma get_retry_delay_small:
  "count_of re rid < 1024 \<Longrightarrow>
   get_retry_delay re rid = Inr (min (1 * 2 ^ count_of re rid) 10)"
  by (simp add: get_retry_delay_def float_of_pow2_def RETRY_DELAY_BASE_def
                RETRY_DELAY_MAX_def)

lemma get_retry_delay_values:
  "get_retry_delay \<lparr>retry_count = Map.empty, retry_history = []\<rparr> rid = Inr 1"
  "get_retry_delay \<lparr>retry_count = [rid \<mapsto> 0], retry_history = []\<rparr> rid = Inr 1"
  "get_retry_delay \<lparr>retry_count = [rid \<mapsto> 1], retry_history = []\<rparr> rid = Inr 2"
  "get_retry_delay \<lparr>retry_count = [rid \<mapsto> 2], retry_history = []\<rparr> rid = Inr 4"
  "get_retry_delay \<lparr>retry_count = [rid \<mapsto> 3], retry_history = []\<rparr> rid = Inr 8"
  "get_retry_delay \<lparr>retry_count = [rid \<mapsto> 4], retry_history = []\<rparr> rid = Inr 10"
  "get_retry_delay \<lparr>retry_count = [rid \<mapsto> 5], retry_history = []\<rparr> rid = Inr 10"
  by (simp_all add: get_retry_delay_def float_of_pow2_def RETRY_DELAY_BASE_def
                    RETRY_DELAY_MAX_def count_of_def)

lemma get_retry_delay_capped:
  assumes "4 \<le> count_of re rid" and "count_of re rid < 1024"
  shows "get_retry_delay re rid = Inr 10"
proof -
  have "(2::rat) ^ 4 \<le> 2 ^ count_of re rid"
    using assms(1) by (intro power_increasing) simp_all
  then have "(10::rat) \<le> 2 ^ count_of re rid" by simp
  then show ?thesis
    using assms(2) by (simp add: get_retry_delay_small min_def)
qed

lemma get_retry_delay_large:
  "1024 \<le> count_of re rid \<Longrightarrow> get_retry_delay re rid = Inl OverflowError"
  by (simp add: get_retry_delay_def float_of_pow2_def)

section \<open>Properties of the performance analyzer\<close>

lemmas analyze_defs =
  analyze_def check_fps_def check_draw_calls_def check_node_count_def
  generate_recommendations_def less_than_def greater_than_def dict_get_def
  fps_min_def fps_warning_def draw_calls_max_def draw_calls_warning_def
  node_count_max_def node_count_warning_def Let_def

lemma analyze_fps_20:
  "analyze fmt [''fps'' \<mapsto> PInt 20] =
     Inr \<lparr>verdict = ''critical'',
          issues = [\<lparr>metric = ''fps'', issue_value = PInt 20, threshold = PFloat 30,
                     message = ''Critical FPS: '' @ fixed1 fmt (PInt 20)\<rparr>],
          warnings = [],
          recommendations =
            [\<lparr>priority = ''high'', area = ''frame_rate'',
              advice = ''Reduce shader complexity, implement LOD, enable occlusion culling''\<rparr>]\<rparr>"
  by (simp add: analyze_defs)

lemma analyze_fps_40:
  "analyze fmt [''fps'' \<mapsto> PInt 40] =
     Inr \<lparr>verdict = ''ok'',
          issues = [],
          warnings = [\<lparr>metric = ''fps'', issue_value = PInt 40, threshold = PFloat 45,
                       message = ''Low FPS: '' @ fixed1 fmt (PInt 40)\<rparr>],
          recommendations =
            [\<lparr>priority = ''medium'', area = ''fps'',
              advice = ''Monitor fps - current: '' @ str_of fmt (PInt 40)\<rparr>]\<rparr>"
  by (simp add: analyze_defs)

lemma analyze_draw_calls_6000:
  "analyze fmt [''fps'' \<mapsto> PInt 60, ''draw_calls'' \<mapsto> PInt 6000] =
     Inr \<lparr>verdict = ''critical'',
          issues = [\<lparr>metric = ''draw_calls'', issue_value = PInt 6000,
                     threshold = PInt 5000,
                     message = ''Critical draw calls: '' @ str_of fmt (PInt 6000)\<rparr>],
          warnings = [],
          recommendations =
            [\<lparr>priority = ''high'', area = ''draw_calls'',
              advice = ''Use MultiMeshInstance, enable GPU instancing, combine static meshes''\<rparr>]\<rparr>"
  by (simp add: analyze_defs)

lemma analyze_defaults:
  "analyze fmt report =
   analyze fmt (report(''fps'' \<mapsto> dict_get report ''fps'' (PFloat 60),
                       ''draw_calls'' \<mapsto> dict_get report ''draw_calls'' (PInt 0),
                       ''node_count'' \<mapsto> dict_get report ''node_count'' (PInt 0)))"
  by (simp add: analyze_def dict_get_def Let_def)

text \<open>
  C9. \<open>analyze({fps: 20})\<close> is critical with exactly one issue, on fps;
  \<open>analyze({fps: 40})\<close> is ok with exactly one warning, on fps;
  \<open>analyze({fps: 60, draw_calls: 6000})\<close> is critical with exactly one issue, on
  draw_calls, and nothing on fps; and a report gives the same analysis as the report with
  its absent metrics set to fps = 60.0, draw_calls = 0, node_count = 0.
\<close>

theorem analyze_examples:
  "map_sum id (\<lambda>a. (verdict a, map metric (issues a), map metric (warnings a)))
     (analyze fmt [''fps'' \<mapsto> PInt 20]) = Inr (''critical'', [''fps''], []) \<and>
   map_sum id (\<lambda>a. (verdict a, map metric (issues a), map metric (warnings a)))
     (analyze fmt [''fps'' \<mapsto> PInt 40]) = Inr (''ok'', [], [''fps'']) \<and>
   map_sum id (\<lambda>a. (verdict a, map metric (issues a), map metric (warnings a)))
     (analyze fmt [''fps'' \<mapsto> PInt 60, ''draw_calls'' \<mapsto> PInt 6000])
     = Inr (''critical'', [''draw_calls''], []) \<and>
   analyze fmt report =
     analyze fmt (report(''fps'' \<mapsto> dict_get report ''fps'' (PFloat 60),
                         ''draw_calls'' \<mapsto> dict_get report ''draw_calls'' (PInt 0),
                         ''node_count'' \<mapsto> dict_get report ''node_count'' (PInt 0)))"
  using analyze_defaults [of fmt report]
  by (simp add: analyze_fps_20 analyze_fps_40 analyze_draw_calls_6000)

section \<open>Properties of the dispatcher\<close>

subsection \<open>The command history\<close>

lemma log_command_history:
  "command_history (log_command env c r n s) =
     drop (Suc (length (command_history s)) - 1000)
       (command_history s @
        [\<lparr>he_command = command_to_dict c, he_response = response_to_dict r,
          he_attempts = n, he_timestamp = now_iso env (clock_reads s)\<rparr>])"
  by (simp add: log_command_def read_clock_def Let_def)

text \<open>
  C10. After \<open>_log_command\<close> the history has at most 1000 entries. Below 1000 entries
  the new entry is appended; at 1000 entries the oldest one is dropped and the others keep
  their order, followed by the new entry.
\<close>

theorem log_command_bounded:
  "length (command_history (log_command env c r n s)) \<le> 1000 \<and>
   (length (command_history s) < 1000 \<longrightarrow>
      command_history (log_command env c r n s) =
        command_history s @
          [\<lparr>he_command = command_to_dict c, he_response = response_to_dict r,
            he_attempts = n, he_timestamp = now_iso env (clock_reads s)\<rparr>]) \<and>
   (length (command_history s) = 1000 \<longrightarrow>
      command_history (log_command env c r n s) =
        tl (command_history s) @
          [\<lparr>he_command = command_to_dict c, he_response = response_to_dict r,
            he_attempts = n, he_timestamp = now_iso env (clock_reads s)\<rparr>])"
proof (intro conjI impI)
  show "length (command_history (log_command env c r n s)) \<le> 1000"
    by (simp add: log_command_history)
next
  assume "length (command_history s) < 1000"
  then show "command_history (log_command env c r n s) =
        command_history s @
          [\<lparr>he_command = command_to_dict c, he_response = response_to_dict r,
            he_attempts = n, he_timestamp = now_iso env (clock_reads s)\<rparr>]"
    by (simp add: log_command_history)
next
  assume l: "length (command_history s) = 1000"
  then have "command_history s \<noteq> []" by auto
  then obtain e es where es: "command_history s = e # es"
    by (cases "command_history s") auto
  with l show "command_history (log_command env c r n s) =
        tl (command_history s) @
          [\<lparr>he_command = command_to_dict c, he_response = response_to_dict r,
            he_attempts = n, he_timestamp = now_iso env (clock_reads s)\<rparr>]"
    by (simp add: log_command_history)
qed

theorem log_command_bounded_witness:
  "command_history
     (log_command success_editor (example_command ''req_1'')
        (response_from_dict success_reply) 1 (new_dispatcher True)) =
     [\<lparr>he_command = command_to_dict (example_command ''req_1''),
       he_response = response_to_dict (response_from_dict success_reply),
       he_attempts = 1, he_timestamp = now_iso success_editor 0\<rparr>] \<and>
   length (command_history
     (log_command success_editor (example_command ''req_1'')
        (response_from_dict success_reply) 1 full_dispatcher)) \<le> 1000 \<and>
   command_history
     (log_command success_editor (example_command ''req_1'')
        (response_from_dict success_reply) 1 full_dispatcher) =
     replicate 999 old_entry @
     [\<lparr>he_command = command_to_dict (example_command ''req_1''),
       he_response = response_to_dict (response_from_dict success_reply),
       he_attempts = 1, he_timestamp = now_iso success_editor 0\<rparr>]"
proof -
  have tl: "tl (replicate 1000 old_entry) = replicate 999 old_entry"
    by (simp add: tl_replicate)
  show ?thesis
    using log_command_bounded [of success_editor "example_command ''req_1''"
            "response_from_dict success_reply" 1 "new_dispatcher True"]
          log_command_bounded [of success_editor "example_command ''req_1''"
            "response_from_dict success_reply" 1 full_dispatcher]
    by (simp add: full_dispatcher_def new_dispatcher_def tl)
qed

subsection \<open>One pass through the loop\<close>

lemmas command_loop_induct = command_loop.raw_induct [rotated 1, consumes 1, case_names pass]

lemma count_of_record_attempt:
  "count_of (record_attempt now rid c r re) rid = Suc (count_of re rid)"
  by (simp add: record_attempt_def count_of_def Let_def domIff split: option.splits)

lemma count_of_reset: "count_of (reset rid re) rid = 0"
  by (simp add: reset_def count_of_def domIff split: option.splits)

lemma can_continue_iff: "can_continue re rid \<longleftrightarrow> count_of re rid < 5"
  by (simp add: can_continue_def should_retry_def MAX_RETRIES_def)

lemma command_loop_Continue:
  "loop_body env c rid (Suc a) s = (Continue, s') \<Longrightarrow>
   command_loop env c rid a s = command_loop env c rid (Suc a) s'"
  by (subst command_loop.simps) simp

lemma command_loop_Return:
  "loop_body env c rid (Suc a) s = (Return r, s') \<Longrightarrow>
   command_loop env c rid a s = Some (Inr r, s')"
  by (subst command_loop.simps) simp

lemma command_loop_Raise:
  "loop_body env c rid (Suc a) s = (Raise e, s') \<Longrightarrow>
   command_loop env c rid a s = Some (Inl e, s')"
  by (subst command_loop.simps) simp

lemma loop_body_no_reply:
  assumes "connected s \<longrightarrow> exchange env (length (sent s)) = None"
    and "count_of (retry_engine s) rid < 5"
  shows "\<exists>s'. loop_body env c rid n s = (Continue, s') \<and>
           connected s' = connected s \<and>
           retry_engine s' = retry_engine s \<and>
           slept s' = slept s @ [min (2 ^ count_of (retry_engine s) rid) 10]"
  using assms
  by (simp add: loop_body_def send_command_def can_continue_iff get_retry_delay_small
                sleep_def)

lemma loop_body_success:
  assumes "connected s" and "exchange env (length (sent s)) = Some w"
    and "is_success (response_from_dict w)"
  shows "\<exists>s'. loop_body env c rid n s = (Return (response_from_dict w), s') \<and>
           connected s' = connected s \<and>
           sent s' = sent s @ [command_to_dict c] \<and>
           slept s' = slept s \<and>
           pending_commands s' = pending_commands s \<and>
           count_of (retry_engine s') rid = 0 \<and>
           command_history s' =
             drop (Suc (length (command_history s)) - 1000)
               (command_history s @
                [\<lparr>he_command = command_to_dict c,
                  he_response = response_to_dict (response_from_dict w),
                  he_attempts = n, he_timestamp = now_iso env (clock_reads s + 1)\<rparr>]) \<and>
           clock_reads s' = clock_reads s + 2 \<and>
           uuid_reads s' = uuid_reads s"
  using assms
  by (simp add: loop_body_def send_command_def read_clock_def log_command_def Let_def
                count_of_reset)

lemma loop_body_terminal_error:
  assumes "connected s" and "exchange env (length (sent s)) = Some w"
    and "is_error (response_from_dict w)"
    and "error_type (response_from_dict w) \<notin> {PStr ''compile'', PStr ''runtime''} \<or>
         4 \<le> count_of (retry_engine s) rid"
  shows "\<exists>s'. loop_body env c rid n s = (Return (response_from_dict w), s') \<and>
           connected s' = connected s \<and>
           sent s' = sent s @ [command_to_dict c] \<and>
           slept s' = slept s \<and>
           pending_commands s' = pending_commands s \<and>
           count_of (retry_engine s') rid = Suc (count_of (retry_engine s) rid) \<and>
           command_history s' =
             drop (Suc (length (command_history s)) - 1000)
               (command_history s @
                [\<lparr>he_command = command_to_dict c,
                  he_response = response_to_dict (response_from_dict w),
                  he_attempts = n, he_timestamp = now_iso env (clock_reads s + 1)\<rparr>]) \<and>
           clock_reads s' = clock_reads s + 2 \<and>
           uuid_reads s' = uuid_reads s"
proof -
  have ns: "is_success (response_from_dict w) = False"
    using assms(3) by (simp add: is_success_def is_error_def)
  have stop: "(error_type (response_from_dict w) \<in> set [PStr ''compile'', PStr ''runtime''] \<and>
      can_continue (record_attempt now rid c (response_from_dict w) (retry_engine s)) rid)
      = False" for now
    using assms(4) by (auto simp: can_continue_iff count_of_record_attempt)
  show ?thesis
    using assms(1-3)
    by (simp add: loop_body_def send_command_def read_clock_def log_command_def Let_def
                  ns stop count_of_record_attempt del: set_simps)
qed

lemma loop_body_retry:
  assumes "connected s" and "exchange env (length (sent s)) = Some w"
    and "is_error (response_from_dict w)"
    and "error_type (response_from_dict w) \<in> {PStr ''compile'', PStr ''runtime''}"
    and "count_of (retry_engine s) rid < 4"
  shows "\<exists>s'. loop_body env c rid n s = (Continue, s') \<and>
           connected s' = connected s \<and>
           sent s' = sent s @ [command_to_dict c] \<and>
           slept s' = slept s @ [min (2 ^ Suc (count_of (retry_engine s) rid)) 10] \<and>
           pending_commands s' = pending_commands s \<and>
           count_of (retry_engine s') rid = Suc (count_of (retry_engine s) rid) \<and>
           command_history s' = command_history s \<and>
           clock_reads s' = clock_reads s + 1 \<and>
           uuid_reads s' = uuid_reads s"
proof -
  have ns: "is_success (response_from_dict w) = False"
    using assms(3) by (simp add: is_success_def is_error_def)
  have go: "(error_type (response_from_dict w) \<in> set [PStr ''compile'', PStr ''runtime''] \<and>
      can_continue (record_attempt now rid c (response_from_dict w) (retry_engine s)) rid)
      = True" for now
    using assms(4,5) by (auto simp: can_continue_iff count_of_record_attempt)
  have d: "get_retry_delay (record_attempt now rid c (response_from_dict w) (retry_engine s)) rid
      = Inr (min (2 ^ Suc (count_of (retry_engine s) rid)) 10)" for now
    using assms(5) by (simp add: get_retry_delay_small count_of_record_attempt)
  show ?thesis
    using assms(1-3)
    by (simp add: loop_body_def send_command_def read_clock_def sleep_def Let_def
                  ns go d count_of_record_attempt del: set_simps)
qed

lemma loop_body_pending:
  "loop_body env c rid n s = (p, s') \<Longrightarrow> pending_commands s' = pending_commands s"
  by (auto simp: loop_body_def send_command_def read_clock_def log_command_def sleep_def
                 Let_def
           split: if_splits option.splits sum.splits prod.splits)

lemma command_loop_pending:
  "command_loop env c rid a s = Some y \<Longrightarrow> pending_commands (snd y) = pending_commands s"
proof (induction rule: command_loop_induct)
  case (pass loop env c rid a s y)
  obtain p s1 where b: "loop_body env c rid (a + 1) s = (p, s1)"
    by (cases "loop_body env c rid (a + 1) s")
  then have s1: "pending_commands s1 = pending_commands s"
    by (rule loop_body_pending)
  show ?case
  proof (cases p)
    case Continue
    with pass.hyps b have "loop env c rid (a + 1) s1 = Some y" by simp
    then have "pending_commands (snd y) = pending_commands s1" by (rule pass.IH)
    with s1 show ?thesis by simp
  next
    case (Return r)
    with pass.hyps b s1 show ?thesis by auto
  next
    case (Raise e)
    with pass.hyps b s1 show ?thesis by auto
  qed
qed

lemma command_loop_silent_aux:
  "command_loop env c rid a s = Some y \<Longrightarrow>
   connected s \<longrightarrow> (\<forall>k. exchange env k = None) \<Longrightarrow>
   count_of (retry_engine s) rid < 5 \<Longrightarrow> False"
proof (induction rule: command_loop_induct)
  case (pass loop env c rid a s y)
  from pass.prems have "connected s \<longrightarrow> exchange env (length (sent s)) = None" by simp
  from loop_body_no_reply [OF this pass.prems(2), of c "a + 1"]
  obtain s1 where b: "loop_body env c rid (a + 1) s = (Continue, s1)"
    and co: "connected s1 = connected s" and re: "retry_engine s1 = retry_engine s"
    by blast
  from pass.hyps b have "loop env c rid (a + 1) s1 = Some y" by simp
  moreover have "connected s1 \<longrightarrow> (\<forall>k. exchange env k = None)"
    using pass.prems(1) co by simp
  moreover have "count_of (retry_engine s1) rid < 5"
    using pass.prems(2) re by simp
  ultimately show ?case by (rule pass.IH)
qed

lemma command_loop_silent:
  assumes "connected s \<longrightarrow> (\<forall>k. exchange env k = None)"
    and "count_of (retry_engine s) rid < 5"
  shows "command_loop env c rid a s = None"
proof (cases "command_loop env c rid a s")
  case None
  then show ?thesis .
next
  case (Some y)
  from command_loop_silent_aux [OF Some assms] show ?thesis ..
qed

subsection \<open>One command\<close>

lemma execute_command_start:
  "\<exists>s0. execute_command env c s =
          command_loop env (fst (assign_request_id env c s))
            (request_id (fst (assign_request_id env c s))) 0 s0 \<and>
        connected s0 = connected s \<and>
        retry_engine s0 = retry_engine s \<and>
        pending_commands s0 =
          (pending_commands s)(request_id (fst (assign_request_id env c s)) \<mapsto>
             fst (assign_request_id env c s)) \<and>
        command_history s0 = command_history s \<and>
        sent s0 = sent s \<and>
        slept s0 = slept s \<and>
        clock_reads s0 = clock_reads s"
proof -
  obtain c' s1 where a: "assign_request_id env c s = (c', s1)"
    by (cases "assign_request_id env c s")
  then have s1: "connected s1 = connected s" "retry_engine s1 = retry_engine s"
    "pending_commands s1 = pending_commands s" "command_history s1 = command_history s"
    "sent s1 = sent s" "slept s1 = slept s" "clock_reads s1 = clock_reads s"
    by (auto simp: assign_request_id_def generate_request_id_def split: if_splits)
  show ?thesis
    by (rule exI [of _ "s1\<lparr>pending_commands := (pending_commands s1)(request_id c' \<mapsto> c')\<rparr>"])
       (simp add: execute_command_def a s1 Let_def)
qed

lemma execute_command_pending:
  assumes "execute_command env c s = Some y"
  shows "pending_commands (snd y) (request_id (fst (assign_request_id env c s))) =
         Some (fst (assign_request_id env c s))"
proof -
  from execute_command_start [of env c s] assms
  obtain s0 where run: "command_loop env (fst (assign_request_id env c s))
            (request_id (fst (assign_request_id env c s))) 0 s0 = Some y"
    and p: "pending_commands s0 =
          (pending_commands s)(request_id (fst (assign_request_id env c s)) \<mapsto>
             fst (assign_request_id env c s))"
    by auto
  from command_loop_pending [OF run] p show ?thesis by simp
qed

lemma execute_command_silent:
  assumes "connected s \<longrightarrow> (\<forall>k. exchange env k = None)"
    and "count_of (retry_engine s) (request_id (fst (assign_request_id env c s))) < 5"
  shows "execute_command env c s = None"
proof -
  from execute_command_start [of env c s]
  obtain s0 where run: "execute_command env c s =
      command_loop env (fst (assign_request_id env c s))
            (request_id (fst (assign_request_id env c s))) 0 s0"
    and co: "connected s0 = connected s" and re: "retry_engine s0 = retry_engine s"
    by auto
  from assms co re have "command_loop env (fst (assign_request_id env c s))
            (request_id (fst (assign_request_id env c s))) 0 s0 = None"
    by (intro command_loop_silent) simp_all
  with run show ?thesis by simp
qed

lemma execute_command_gives_up:
  assumes "connected s \<longrightarrow> exchange env (length (sent s)) = None"
    and "5 \<le> count_of (retry_engine s) (request_id (fst (assign_request_id env c s)))"
  shows "\<exists>s'. execute_command env c s = Some (Inr communication_failure, s') \<and>
           slept s' = slept s"
proof -
  from execute_command_start [of env c s]
  obtain s0 where run: "execute_command env c s =
      command_loop env (fst (assign_request_id env c s))
            (request_id (fst (assign_request_id env c s))) 0 s0"
    and s0: "connected s0 = connected s" "retry_engine s0 = retry_engine s"
      "sent s0 = sent s" "slept s0 = slept s"
    by auto
  have "\<exists>s'. loop_body env (fst (assign_request_id env c s))
            (request_id (fst (assign_request_id env c s))) (Suc 0) s0
          = (Return communication_failure, s') \<and> slept s' = slept s0"
    using assms s0
    by (simp add: loop_body_def send_command_def can_continue_iff)
  then obtain s' where b: "loop_body env (fst (assign_request_id env c s))
            (request_id (fst (assign_request_id env c s))) (Suc 0) s0
          = (Return communication_failure, s')" and "slept s' = slept s0"
    by blast
  with command_loop_Return [OF b] run s0 show ?thesis by simp
qed

text \<open>
  C1. A command with no recorded attempts, executed on a dispatcher whose client is not
  connected, or whose connection never delivers a reply: \<open>execute_command\<close> does not
  return. A communication failure is never recorded as an attempt, so \<open>can_continue\<close>
  stays true and the loop sleeps and sends again for ever. The response for a dead
  connection is returned only when the id already has five recorded attempts, and then
  at the first failure.
\<close>

theorem dead_connection_never_returns:
  "execute_command silent_editor (example_command ''req_1'') (new_dispatcher False) = None \<and>
   execute_command silent_editor (example_command ''req_1'') (new_dispatcher True) = None"
  by (simp add: execute_command_silent silent_editor_def editor_def new_dispatcher_def
                new_retry_engine_def count_of_def)

lemma execute_command_first_reply_success:
  assumes "connected s" and "exchange env (length (sent s)) = Some w"
    and "is_success (response_from_dict w)"
  shows "\<exists>s'. execute_command env c s = Some (Inr (response_from_dict w), s') \<and>
           connected s' = connected s \<and>
           sent s' = sent s @ [command_to_dict (fst (assign_request_id env c s))] \<and>
           slept s' = slept s \<and>
           pending_commands s' =
             (pending_commands s)(request_id (fst (assign_request_id env c s)) \<mapsto>
                fst (assign_request_id env c s))"
proof -
  from execute_command_start [of env c s]
  obtain s0 where run: "execute_command env c s =
      command_loop env (fst (assign_request_id env c s))
            (request_id (fst (assign_request_id env c s))) 0 s0"
    and s0: "connected s0 = connected s" "sent s0 = sent s" "slept s0 = slept s"
      "pending_commands s0 =
          (pending_commands s)(request_id (fst (assign_request_id env c s)) \<mapsto>
             fst (assign_request_id env c s))"
    by auto
  from assms s0 have "connected s0" "exchange env (length (sent s0)) = Some w" by simp_all
  from loop_body_success [OF this assms(3), of "fst (assign_request_id env c s)"
         "request_id (fst (assign_request_id env c s))" "Suc 0"]
  obtain s' where b: "loop_body env (fst (assign_request_id env c s))
         (request_id (fst (assign_request_id env c s))) (Suc 0) s0
         = (Return (response_from_dict w), s')"
    and s': "connected s' = connected s0" "sent s' = sent s0 @ [command_to_dict (fst (assign_request_id env c s))]"
      "slept s' = slept s0" "pending_commands s' = pending_commands s0"
    by blast
  from command_loop_Return [OF b] run s0 s' show ?thesis by simp
qed

text \<open>
  C3. A command that succeeds at the first attempt: \<open>execute_command\<close> returns the
  success, and the id of the command is still a key of \<open>pending_commands\<close>, bound to
  the command (by \<open>execute_command_pending\<close>, after every call that returns).
\<close>

theorem request_id_stays_pending:
  "fst (the (execute_command success_editor (example_command ''req_1'') (new_dispatcher True)))
     = Inr (response_from_dict success_reply) \<and>
   is_success (response_from_dict success_reply) \<and>
   pending_commands
     (snd (the (execute_command success_editor (example_command ''req_1'')
                  (new_dispatcher True)))) ''req_1''
     = Some (example_command ''req_1'')"
proof -
  have ok: "is_success (response_from_dict success_reply)"
    by (simp add: is_success_def response_from_dict_def dict_get_def success_reply_def)
  have "connected (new_dispatcher True)"
    and "exchange success_editor (length (sent (new_dispatcher True))) = Some success_reply"
    by (simp_all add: new_dispatcher_def success_editor_def editor_def)
  from execute_command_first_reply_success [OF this ok, of "example_command ''req_1''"]
  obtain s' where "execute_command success_editor (example_command ''req_1'')
      (new_dispatcher True) = Some (Inr (response_from_dict success_reply), s')"
    and "pending_commands s' =
             (pending_commands (new_dispatcher True))
               (request_id (fst (assign_request_id success_editor (example_command ''req_1'')
                  (new_dispatcher True))) \<mapsto>
                fst (assign_request_id success_editor (example_command ''req_1'')
                  (new_dispatcher True)))"
    by blast
  then show ?thesis
    using ok by (simp add: assign_request_id_def example_command_def)
qed

lemma execute_command_first_reply_terminal_error:
  assumes "connected s" and "exchange env (length (sent s)) = Some w"
    and "is_error (response_from_dict w)"
    and "error_type (response_from_dict w) \<notin> {PStr ''compile'', PStr ''runtime''}"
  shows "\<exists>s'. execute_command env c s = Some (Inr (response_from_dict w), s') \<and>
           connected s' = connected s \<and>
           sent s' = sent s @ [command_to_dict (fst (assign_request_id env c s))] \<and>
           slept s' = slept s \<and>
           command_history s' =
             drop (Suc (length (command_history s)) - 1000)
               (command_history s @
                [\<lparr>he_command = command_to_dict (fst (assign_request_id env c s)),
                  he_response = response_to_dict (response_from_dict w),
                  he_attempts = 1, he_timestamp = now_iso env (clock_reads s + 1)\<rparr>])"
proof -
  from execute_command_start [of env c s]
  obtain s0 where run: "execute_command env c s =
      command_loop env (fst (assign_request_id env c s))
            (request_id (fst (assign_request_id env c s))) 0 s0"
    and s0: "connected s0 = connected s" "sent s0 = sent s" "slept s0 = slept s"
      "command_history s0 = command_history s" "clock_reads s0 = clock_reads s"
    by auto
  from assms s0 have "connected s0" "exchange env (length (sent s0)) = Some w" by simp_all
  from loop_body_terminal_error [OF this assms(3) disjI1 [OF assms(4)],
         of "fst (assign_request_id env c s)"
         "request_id (fst (assign_request_id env c s))" "Suc 0"]
  obtain s' where b: "loop_body env (fst (assign_request_id env c s))
         (request_id (fst (assign_request_id env c s))) (Suc 0) s0
         = (Return (response_from_dict w), s')"
    and s': "connected s' = connected s0"
      "sent s' = sent s0 @ [command_to_dict (fst (assign_request_id env c s))]"
      "slept s' = slept s0"
      "command_history s' =
             drop (Suc (length (command_history s0)) - 1000)
               (command_history s0 @
                [\<lparr>he_command = command_to_dict (fst (assign_request_id env c s)),
                  he_response = response_to_dict (response_from_dict w),
                  he_attempts = Suc 0, he_timestamp = now_iso env (clock_reads s0 + 1)\<rparr>])"
    by blast
  from command_loop_Return [OF b] run s0 s' show ?thesis by simp
qed

lemma syntax_error_reply_response:
  "is_error (response_from_dict syntax_error_reply)"
  "error_type (response_from_dict syntax_error_reply) = PStr ''invalid_syntax''"
  by (simp_all add: is_error_def response_from_dict_def dict_get_def syntax_error_reply_def)

text \<open>
  C7. When the first reply to a command is an error whose \<open>error_type\<close> is neither
  \<open>compile\<close> nor \<open>runtime\<close>, \<open>execute_command\<close> returns that response unchanged
  after one message sent and no sleep, and the outcome, with \<open>attempts = 1\<close>, is
  appended to \<open>command_history\<close> (cut to its last 1000 entries).
\<close>

theorem other_error_returned_at_once:
  assumes "connected s" and "exchange env (length (sent s)) = Some w"
    and "is_error (response_from_dict w)"
    and "error_type (response_from_dict w) \<notin> {PStr ''compile'', PStr ''runtime''}"
  shows "\<exists>s'. execute_command env c s = Some (Inr (response_from_dict w), s') \<and>
           sent s' = sent s @ [command_to_dict (fst (assign_request_id env c s))] \<and>
           slept s' = slept s \<and>
           command_history s' =
             drop (Suc (length (command_history s)) - 1000)
               (command_history s @
                [\<lparr>he_command = command_to_dict (fst (assign_request_id env c s)),
                  he_response = response_to_dict (response_from_dict w),
                  he_attempts = 1, he_timestamp = now_iso env (clock_reads s + 1)\<rparr>])"
  using execute_command_first_reply_terminal_error [OF assms, of c] by blast

theorem other_error_returned_at_once_witness:
  "\<exists>s'. execute_command syntax_error_editor (example_command ''req_1'') (new_dispatcher True)
          = Some (Inr (response_from_dict syntax_error_reply), s') \<and>
        sent s' = [command_to_dict (example_command ''req_1'')] \<and>
        slept s' = [] \<and>
        command_history s' =
          [\<lparr>he_command = command_to_dict (example_command ''req_1''),
            he_response = response_to_dict (response_from_dict syntax_error_reply),
            he_attempts = 1, he_timestamp = ''2024-01-01T00:00:00''\<rparr>]"
proof -
  have "connected (new_dispatcher True)"
    and "exchange syntax_error_editor (length (sent (new_dispatcher True)))
         = Some syntax_error_reply"
    and "is_error (response_from_dict syntax_error_reply)"
    and "error_type (response_from_dict syntax_error_reply)
         \<notin> {PStr ''compile'', PStr ''runtime''}"
    by (simp_all add: new_dispatcher_def syntax_error_editor_def editor_def
                      syntax_error_reply_response)
  from other_error_returned_at_once [OF this, of "example_command ''req_1''"]
  show ?thesis
    by (simp add: assign_request_id_def example_command_def new_dispatcher_def
                  syntax_error_editor_def editor_def)
qed

subsection \<open>Retried commands\<close>

lemma command_loop_retry_step:
  assumes "connected s" and "exchange env (length (sent s)) = Some w"
    and "is_error (response_from_dict w)"
    and "error_type (response_from_dict w) \<in> {PStr ''compile'', PStr ''runtime''}"
    and "count_of (retry_engine s) rid < 4"
  shows "\<exists>s'. command_loop env c rid a s = command_loop env c rid (Suc a) s' \<and>
           connected s' = connected s \<and>
           sent s' = sent s @ [command_to_dict c] \<and>
           slept s' = slept s @ [min (2 ^ Suc (count_of (retry_engine s) rid)) 10] \<and>
           pending_commands s' = pending_commands s \<and>
           count_of (retry_engine s') rid = Suc (count_of (retry_engine s) rid) \<and>
           command_history s' = command_history s \<and>
           clock_reads s' = clock_reads s + 1 \<and>
           uuid_reads s' = uuid_reads s"
proof -
  from loop_body_retry [OF assms, of c "Suc a"]
  obtain s' where b: "loop_body env c rid (Suc a) s = (Continue, s')"
    and s': "connected s' = connected s \<and>
           sent s' = sent s @ [command_to_dict c] \<and>
           slept s' = slept s @ [min (2 ^ Suc (count_of (retry_engine s) rid)) 10] \<and>
           pending_commands s' = pending_commands s \<and>
           count_of (retry_engine s') rid = Suc (count_of (retry_engine s) rid) \<and>
           command_history s' = command_history s \<and>
           clock_reads s' = clock_reads s + 1 \<and>
           uuid_reads s' = uuid_reads s"
    by blast
  from command_loop_Continue [OF b] s' show ?thesis by blast
qed

lemma command_loop_last_step:
  assumes "connected s" and "exchange env (length (sent s)) = Some w"
    and "is_error (response_from_dict w)"
    and "4 \<le> count_of (retry_engine s) rid"
  shows "\<exists>s'. command_loop env c rid a s = Some (Inr (response_from_dict w), s') \<and>
           connected s' = connected s \<and>
           sent s' = sent s @ [command_to_dict c] \<and>
           slept s' = slept s \<and>
           pending_commands s' = pending_commands s \<and>
           count_of (retry_engine s') rid = Suc (count_of (retry_engine s) rid) \<and>
           command_history s' =
             drop (Suc (length (command_history s)) - 1000)
               (command_history s @
                [\<lparr>he_command = command_to_dict c,
                  he_response = response_to_dict (response_from_dict w),
                  he_attempts = Suc a, he_timestamp = now_iso env (clock_reads s + 1)\<rparr>])"
proof -
  from loop_body_terminal_error [OF assms(1-3) disjI2 [OF assms(4)], of c "Suc a"]
  obtain s' where b: "loop_body env c rid (Suc a) s = (Return (response_from_dict w), s')"
    and s': "connected s' = connected s \<and>
           sent s' = sent s @ [command_to_dict c] \<and>
           slept s' = slept s \<and>
           pending_commands s' = pending_commands s \<and>
           count_of (retry_engine s') rid = Suc (count_of (retry_engine s) rid) \<and>
           command_history s' =
             drop (Suc (length (command_history s)) - 1000)
               (command_history s @
                [\<lparr>he_command = command_to_dict c,
                  he_response = response_to_dict (response_from_dict w),
                  he_attempts = Suc a, he_timestamp = now_iso env (clock_reads s + 1)\<rparr>])"
    by blast
  from command_loop_Return [OF b] s' show ?thesis by blast
qed

lemma command_loop_compile_errors:
  assumes conn: "connected s"
    and replies: "\<forall>k. \<exists>w. exchange env k = Some w \<and> is_error (response_from_dict w) \<and>
                   error_type (response_from_dict w) = PStr ''compile''"
    and fresh: "count_of (retry_engine s) rid = 0"
  shows "\<exists>w s'. exchange env (length (sent s) + 4) = Some w \<and>
           command_loop env c rid 0 s = Some (Inr (response_from_dict w), s') \<and>
           connected s' = connected s \<and>
           sent s' = sent s @ replicate 5 (command_to_dict c) \<and>
           slept s' = slept s @ [2, 4, 8, 10] \<and>
           pending_commands s' = pending_commands s \<and>
           count_of (retry_engine s') rid = 5 \<and>
           command_history s' =
             drop (Suc (length (command_history s)) - 1000)
               (command_history s @
                [\<lparr>he_command = command_to_dict c,
                  he_response = response_to_dict (response_from_dict w),
                  he_attempts = 5, he_timestamp = now_iso env (clock_reads s + 5)\<rparr>])"
proof -
  have reply: "\<exists>w. exchange env k = Some w \<and> is_error (response_from_dict w) \<and>
      error_type (response_from_dict w) \<in> {PStr ''compile'', PStr ''runtime''}" for k
    using replies by auto
  from reply [of "length (sent s)"] obtain w0
    where w0: "exchange env (length (sent s)) = Some w0" "is_error (response_from_dict w0)"
      "error_type (response_from_dict w0) \<in> {PStr ''compile'', PStr ''runtime''}"
    by blast
  from fresh have "count_of (retry_engine s) rid < 4" by simp
  from command_loop_retry_step [OF conn w0 this, of c 0] fresh
  obtain s1 where r1: "command_loop env c rid 0 s = command_loop env c rid 1 s1"
    and s1: "connected s1" "sent s1 = sent s @ [command_to_dict c]"
      "slept s1 = slept s @ [2]" "pending_commands s1 = pending_commands s"
      "count_of (retry_engine s1) rid = 1" "command_history s1 = command_history s"
      "clock_reads s1 = clock_reads s + 1"
    using conn by auto
  from reply [of "length (sent s1)"] obtain w1
    where w1: "exchange env (length (sent s1)) = Some w1" "is_error (response_from_dict w1)"
      "error_type (response_from_dict w1) \<in> {PStr ''compile'', PStr ''runtime''}"
    by blast
  from s1 have "count_of (retry_engine s1) rid < 4" by simp
  from command_loop_retry_step [OF s1(1) w1 this, of c 1] s1
  obtain s2 where r2: "command_loop env c rid 1 s1 = command_loop env c rid 2 s2"
    and s2: "connected s2" "sent s2 = sent s @ [command_to_dict c, command_to_dict c]"
      "slept s2 = slept s @ [2, 4]" "pending_commands s2 = pending_commands s"
      "count_of (retry_engine s2) rid = 2" "command_history s2 = command_history s"
      "clock_reads s2 = clock_reads s + 2"
    by (auto simp: numeral_2_eq_2)
  from reply [of "length (sent s2)"] obtain w2
    where w2: "exchange env (length (sent s2)) = Some w2" "is_error (response_from_dict w2)"
      "error_type (response_from_dict w2) \<in> {PStr ''compile'', PStr ''runtime''}"
    by blast
  from s2 have "count_of (retry_engine s2) rid < 4" by simp
  from command_loop_retry_step [OF s2(1) w2 this, of c 2] s2
  obtain s3 where r3: "command_loop env c rid 2 s2 = command_loop env c rid 3 s3"
    and s3: "connected s3"
      "sent s3 = sent s @ [command_to_dict c, command_to_dict c, command_to_dict c]"
      "slept s3 = slept s @ [2, 4, 8]" "pending_commands s3 = pending_commands s"
      "count_of (retry_engine s3) rid = 3" "command_history s3 = command_history s"
      "clock_reads s3 = clock_reads s + 3"
    by (auto simp: numeral_3_eq_3)
  from reply [of "length (sent s3)"] obtain w3
    where w3: "exchange env (length (sent s3)) = Some w3" "is_error (response_from_dict w3)"
      "error_type (response_from_dict w3) \<in> {PStr ''compile'', PStr ''runtime''}"
    by blast
  from s3 have "count_of (retry_engine s3) rid < 4" by simp
  from command_loop_retry_step [OF s3(1) w3 this, of c 3] s3
  obtain s4 where r4: "command_loop env c rid 3 s3 = command_loop env c rid 4 s4"
    and s4: "connected s4"
      "sent s4 = sent s @ [command_to_dict c, command_to_dict c, command_to_dict c,
                           command_to_dict c]"
      "slept s4 = slept s @ [2, 4, 8, 10]" "pending_commands s4 = pending_commands s"
      "count_of (retry_engine s4) rid = 4" "command_history s4 = command_history s"
      "clock_reads s4 = clock_reads s + 4"
    by (auto simp: eval_nat_numeral)
  from reply [of "length (sent s4)"] obtain w4
    where w4: "exchange env (length (sent s4)) = Some w4" "is_error (response_from_dict w4)"
    by blast
  from s4 have "4 \<le> count_of (retry_engine s4) rid" by simp
  from command_loop_last_step [OF s4(1) w4 this, of c 4] s4
  obtain s5 where r5: "command_loop env c rid 4 s4 = Some (Inr (response_from_dict w4), s5)"
    and s5: "connected s5"
      "sent s5 = sent s @ replicate 5 (command_to_dict c)"
      "slept s5 = slept s @ [2, 4, 8, 10]" "pending_commands s5 = pending_commands s"
      "count_of (retry_engine s5) rid = 5"
      "command_history s5 =
             drop (Suc (length (command_history s)) - 1000)
               (command_history s @
                [\<lparr>he_command = command_to_dict c,
                  he_response = response_to_dict (response_from_dict w4),
                  he_attempts = 5, he_timestamp = now_iso env (clock_reads s + 5)\<rparr>])"
    by (auto simp: eval_nat_numeral)
  have "length (sent s4) = length (sent s) + 4"
    using s4(2) by simp
  with w4(1) have "exchange env (length (sent s) + 4) = Some w4"
    by simp
  moreover have "command_loop env c rid 0 s = Some (Inr (response_from_dict w4), s5)"
    using r1 r2 r3 r4 r5 by simp
  ultimately show ?thesis using s5 conn by blast
qed

lemma execute_command_compile_errors:
  assumes "connected s"
    and "\<forall>k. \<exists>w. exchange env k = Some w \<and> is_error (response_from_dict w) \<and>
               error_type (response_from_dict w) = PStr ''compile''"
    and "count_of (retry_engine s) (request_id (fst (assign_request_id env c s))) = 0"
  shows "\<exists>w s'. exchange env (length (sent s) + 4) = Some w \<and>
           execute_command env c s = Some (Inr (response_from_dict w), s') \<and>
           sent s' = sent s @ replicate 5 (command_to_dict (fst (assign_request_id env c s))) \<and>
           slept s' = slept s @ [2, 4, 8, 10] \<and>
           command_history s' =
             drop (Suc (length (command_history s)) - 1000)
               (command_history s @
                [\<lparr>he_command = command_to_dict (fst (assign_request_id env c s)),
                  he_response = response_to_dict (response_from_dict w),
                  he_attempts = 5, he_timestamp = now_iso env (clock_reads s + 5)\<rparr>])"
proof -
  from execute_command_start [of env c s]
  obtain s0 where run: "execute_command env c s =
      command_loop env (fst (assign_request_id env c s))
            (request_id (fst (assign_request_id env c s))) 0 s0"
    and s0: "connected s0 = connected s" "retry_engine s0 = retry_engine s"
      "sent s0 = sent s" "slept s0 = slept s"
      "command_history s0 = command_history s" "clock_reads s0 = clock_reads s"
    by auto
  from assms s0 have "connected s0"
    and "count_of (retry_engine s0) (request_id (fst (assign_request_id env c s))) = 0"
    by simp_all
  from command_loop_compile_errors [OF this(1) assms(2) this(2),
         of "fst (assign_request_id env c s)"]
  show ?thesis unfolding run s0 by blast
qed

lemma compile_error_editor_run:
  "connected (new_dispatcher True)"
  "\<forall>k. \<exists>w. exchange compile_error_editor k = Some w \<and> is_error (response_from_dict w) \<and>
               error_type (response_from_dict w) = PStr ''compile''"
  "count_of (retry_engine (new_dispatcher True))
     (request_id (fst (assign_request_id compile_error_editor (example_command ''req_1'')
        (new_dispatcher True)))) = 0"
  by (simp_all add: new_dispatcher_def new_retry_engine_def count_of_def
                    compile_error_editor_def editor_def compile_error_reply_def
                    is_error_def response_from_dict_def dict_get_def)

text \<open>
  C2. A connected dispatcher, a command whose id has no recorded attempts, and an editor
  whose every reply is an error with \<open>error_type = compile\<close>: \<open>execute_command\<close>
  sends the command five times, sleeping 2, 4, 8 and 10 seconds between the attempts,
  and returns the fifth reply unchanged, logged with \<open>attempts = 5\<close>. Every reply is
  recorded as an attempt, the first one too, and a retry needs fewer than
  \<open>MAX_RETRIES = 5\<close> recorded attempts: four retries, five attempts.
\<close>

theorem compile_errors_five_attempts:
  assumes "connected s"
    and "\<forall>k. \<exists>w. exchange env k = Some w \<and> is_error (response_from_dict w) \<and>
               error_type (response_from_dict w) = PStr ''compile''"
    and "count_of (retry_engine s) (request_id (fst (assign_request_id env c s))) = 0"
  shows "\<exists>w s'. exchange env (length (sent s) + 4) = Some w \<and>
           execute_command env c s = Some (Inr (response_from_dict w), s') \<and>
           sent s' = sent s @ replicate 5 (command_to_dict (fst (assign_request_id env c s))) \<and>
           slept s' = slept s @ [2, 4, 8, 10] \<and>
           command_history s' =
             drop (Suc (length (command_history s)) - 1000)
               (command_history s @
                [\<lparr>he_command = command_to_dict (fst (assign_request_id env c s)),
                  he_response = response_to_dict (response_from_dict w),
                  he_attempts = 5, he_timestamp = now_iso env (clock_reads s + 5)\<rparr>])"
  using assms by (rule execute_command_compile_errors)

theorem compile_errors_five_attempts_witness:
  "\<exists>s'. execute_command compile_error_editor (example_command ''req_1'') (new_dispatcher True)
          = Some (Inr (response_from_dict compile_error_reply), s') \<and>
        sent s' = replicate 5 (command_to_dict (example_command ''req_1'')) \<and>
        slept s' = [2, 4, 8, 10] \<and>
        command_history s' =
          [\<lparr>he_command = command_to_dict (example_command ''req_1''),
            he_response = response_to_dict (response_from_dict compile_error_reply),
            he_attempts = 5, he_timestamp = ''2024-01-01T00:00:00''\<rparr>]"
  using compile_errors_five_attempts [OF compile_error_editor_run]
  by (simp add: assign_request_id_def example_command_def new_dispatcher_def
                compile_error_editor_def editor_def)

text \<open>
  C2 as the specification has it, five retries and six attempts, fails: on a fresh
  dispatcher the run above ends after five messages and four sleeps.
\<close>

theorem compile_errors_six_attempts_counterexample:
  "execute_command compile_error_editor (example_command ''req_1'') (new_dispatcher True)
     \<noteq> None \<and>
   length (sent (snd (the (execute_command compile_error_editor (example_command ''req_1'')
                             (new_dispatcher True))))) = 5 \<and>
   length (slept (snd (the (execute_command compile_error_editor (example_command ''req_1'')
                              (new_dispatcher True))))) = 4"
proof -
  from execute_command_compile_errors [OF compile_error_editor_run]
  obtain w s' where "execute_command compile_error_editor (example_command ''req_1'')
        (new_dispatcher True) = Some (Inr (response_from_dict w), s')"
    and "sent s' = sent (new_dispatcher True) @
           replicate 5 (command_to_dict (fst (assign_request_id compile_error_editor
              (example_command ''req_1'') (new_dispatcher True))))"
    and "slept s' = slept (new_dispatcher True) @ [2, 4, 8, 10]"
    by blast
  then show ?thesis by (simp add: new_dispatcher_def)
qed

subsection \<open>Batches\<close>

lemma batch_loop_results:
  "batch_loop env cs acc s =
     (case batch_loop env cs [] s of
        None \<Rightarrow> None
      | Some (Inl e, s') \<Rightarrow> Some (Inl e, s')
      | Some (Inr rs, s') \<Rightarrow> Some (Inr (acc @ rs), s'))"
proof (induction cs arbitrary: acc s)
  case Nil
  show ?case by simp
next
  case (Cons c cs)
  show ?case
  proof (cases "execute_command env c s")
    case None
    then show ?thesis by simp
  next
    case (Some y)
    obtain res s1 where y: "y = (res, s1)" by (cases y)
    show ?thesis
    proof (cases res)
      case (Inl e)
      with Some y show ?thesis by simp
    next
      case (Inr r)
      show ?thesis
      proof (cases "is_error r")
        case True
        with Some y Inr show ?thesis by simp
      next
        case False
        have "batch_loop env cs (acc @ [r]) s1 =
          (case batch_loop env cs [] s1 of
             None \<Rightarrow> None
           | Some (Inl e, s') \<Rightarrow> Some (Inl e, s')
           | Some (Inr rs, s') \<Rightarrow> Some (Inr ((acc @ [r]) @ rs), s'))"
          by (rule Cons.IH)
        moreover have "batch_loop env cs [r] s1 =
          (case batch_loop env cs [] s1 of
             None \<Rightarrow> None
           | Some (Inl e, s') \<Rightarrow> Some (Inl e, s')
           | Some (Inr rs, s') \<Rightarrow> Some (Inr ([r] @ rs), s'))"
          by (rule Cons.IH)
        ultimately show ?thesis
          using Some y Inr False
          by (simp split: option.splits sum.splits prod.splits)
      qed
    qed
  qed
qed

lemma execute_batch_Nil: "execute_batch env [] s = Some (Inr [], s)"
  by (simp add: execute_batch_def)

lemma execute_batch_Cons:
  "execute_batch env (c # cs) s =
     (case execute_command env c s of
        None \<Rightarrow> None
      | Some (Inl e, s1) \<Rightarrow> Some (Inl e, s1)
      | Some (Inr r, s1) \<Rightarrow>
          if is_error r then Some (Inr [r], s1)
          else (case execute_batch env cs s1 of
                  None \<Rightarrow> None
                | Some (Inl e, s') \<Rightarrow> Some (Inl e, s')
                | Some (Inr rs, s') \<Rightarrow> Some (Inr (r # rs), s')))"
  unfolding execute_batch_def
  by (simp add: batch_loop_results [of env cs "[r]" for r]
           split: option.splits sum.splits prod.splits)

lemma execute_batch_iff:
  "execute_batch env cs s = Some (Inr rs, s') \<longleftrightarrow>
     length rs \<le> length cs \<and>
     run_in_order env (take (length rs) cs) s = Some (Inr rs, s') \<and>
     (\<forall>r \<in> set (butlast rs). \<not> is_error r) \<and>
     (length rs < length cs \<longrightarrow> rs \<noteq> [] \<and> is_error (last rs))"
proof (induction cs arbitrary: rs s)
  case Nil
  show ?case by (auto simp: execute_batch_Nil)
next
  case (Cons c cs)
  show ?case
  proof (cases rs)
    case Nil
    then show ?thesis
      by (auto simp: execute_batch_Cons split: option.splits sum.splits prod.splits)
  next
    case rs: (Cons r' rs')
    show ?thesis
    proof (cases "execute_command env c s")
      case None
      then show ?thesis by (simp add: execute_batch_Cons rs)
    next
      case (Some y)
      obtain res s1 where y: "y = (res, s1)" by (cases y)
      show ?thesis
      proof (cases res)
        case (Inl e)
        with Some y show ?thesis by (simp add: execute_batch_Cons rs)
      next
        case (Inr r)
        note IH = Cons.IH [of s1 rs']
        show ?thesis
        proof (cases "is_error r")
          case True
          have "run_in_order env (take (length rs') cs) s1 = Some (Inr rs', s') \<Longrightarrow>
                rs' = [] \<Longrightarrow> s' = s1"
            by simp
          with Some y Inr True show ?thesis
            by (auto simp: execute_batch_Cons rs
                     split: option.splits sum.splits prod.splits)
        next
          case False
          with Some y Inr show ?thesis
            using IH
            by (auto simp: execute_batch_Cons rs
                     split: option.splits sum.splits prod.splits)
        qed
      qed
    qed
  qed
qed

lemma success_reply_response:
  "is_success (response_from_dict success_reply)"
  "\<not> is_error (response_from_dict success_reply)"
  by (simp_all add: is_success_def is_error_def response_from_dict_def dict_get_def
                    success_reply_def)

lemma second_fails_batch:
  "\<exists>s'. execute_batch second_fails_editor
          [example_command ''req_1'', example_command ''req_2'', example_command ''req_3'']
          (new_dispatcher True)
        = Some (Inr [response_from_dict success_reply, response_from_dict syntax_error_reply], s') \<and>
        sent s' = [command_to_dict (example_command ''req_1''),
                   command_to_dict (example_command ''req_2'')]"
proof -
  have id: "fst (assign_request_id env (example_command (a # rid)) s) = example_command (a # rid)"
    for env a rid s
    by (simp add: assign_request_id_def example_command_def)
  have "connected (new_dispatcher True)"
    and "exchange second_fails_editor (length (sent (new_dispatcher True))) = Some success_reply"
    by (simp_all add: new_dispatcher_def second_fails_editor_def editor_def)
  from execute_command_first_reply_success [OF this success_reply_response(1),
         of "example_command ''req_1''"]
  obtain s1 where e1: "execute_command second_fails_editor (example_command ''req_1'')
        (new_dispatcher True) = Some (Inr (response_from_dict success_reply), s1)"
    and s1: "connected s1" "sent s1 = [command_to_dict (example_command ''req_1'')]"
    by (auto simp: id new_dispatcher_def)
  from s1 have "exchange second_fails_editor (length (sent s1)) = Some syntax_error_reply"
    by (simp add: second_fails_editor_def editor_def)
  from execute_command_first_reply_terminal_error [OF s1(1) this syntax_error_reply_response(1),
         of "example_command ''req_2''"]
  obtain s2 where e2: "execute_command second_fails_editor (example_command ''req_2'') s1
        = Some (Inr (response_from_dict syntax_error_reply), s2)"
    and s2: "sent s2 = [command_to_dict (example_command ''req_1''),
                        command_to_dict (example_command ''req_2'')]"
    by (auto simp: id s1 syntax_error_reply_response)
  have "execute_batch second_fails_editor
          [example_command ''req_1'', example_command ''req_2'', example_command ''req_3'']
          (new_dispatcher True)
        = Some (Inr [response_from_dict success_reply, response_from_dict syntax_error_reply], s2)"
    by (simp add: execute_batch_Cons e1 e2 success_reply_response syntax_error_reply_response)
  with s2 show ?thesis by blast
qed

text \<open>
  C6. \<open>execute_batch\<close> returns the responses \<open>rs\<close> in the state \<open>s'\<close> exactly when
  \<open>rs\<close> and \<open>s'\<close> are what executing the first \<open>length rs\<close> commands one at a time,
  in order, through \<open>execute_command\<close> gives, no response before the last is an error
  and, when commands are left over, the last response is an error. The state is the one
  the last executed command left, so the commands after it were not attempted.
\<close>

theorem execute_batch_stops_at_first_error:
  "execute_batch env cs s = Some (Inr rs, s') \<longleftrightarrow>
     length rs \<le> length cs \<and>
     run_in_order env (take (length rs) cs) s = Some (Inr rs, s') \<and>
     (\<forall>r \<in> set (butlast rs). \<not> is_error r) \<and>
     (length rs < length cs \<longrightarrow> rs \<noteq> [] \<and> is_error (last rs))"
  by (rule execute_batch_iff)

theorem execute_batch_stops_at_first_error_witness:
  "\<exists>s'. execute_batch second_fails_editor
          [example_command ''req_1'', example_command ''req_2'', example_command ''req_3'']
          (new_dispatcher True)
        = Some (Inr [response_from_dict success_reply, response_from_dict syntax_error_reply], s') \<and>
        run_in_order second_fails_editor
          [example_command ''req_1'', example_command ''req_2''] (new_dispatcher True)
        = Some (Inr [response_from_dict success_reply, response_from_dict syntax_error_reply], s') \<and>
        \<not> is_error (response_from_dict success_reply) \<and>
        is_error (response_from_dict syntax_error_reply) \<and>
        sent s' = [command_to_dict (example_command ''req_1''),
                   command_to_dict (example_command ''req_2'')]"
proof -
  from second_fails_batch obtain s' where
    b: "execute_batch second_fails_editor
          [example_command ''req_1'', example_command ''req_2'', example_command ''req_3'']
          (new_dispatcher True)
        = Some (Inr [response_from_dict success_reply, response_from_dict syntax_error_reply], s')"
    and s: "sent s' = [command_to_dict (example_command ''req_1''),
                   command_to_dict (example_command ''req_2'')]"
    by blast
  from execute_batch_stops_at_first_error [THEN iffD1, OF b] b s
  show ?thesis by auto
qed

subsection \<open>A counter beyond the range of floats\<close>

lemma loop_body_other_status:
  assumes "connected s" and "exchange env (length (sent s)) = Some w"
    and "\<not> is_success (response_from_dict w)" and "\<not> is_error (response_from_dict w)"
  shows "\<exists>s'. loop_body env c rid n s = (Continue, s') \<and>
           connected s' = connected s \<and>
           length (sent s') = Suc (length (sent s)) \<and>
           slept s' = slept s \<and>
           count_of (retry_engine s') rid = Suc (count_of (retry_engine s) rid)"
  using assms
  by (simp add: loop_body_def send_command_def read_clock_def Let_def
                count_of_record_attempt)

lemma command_loop_stall:
  assumes "connected s"
    and "\<forall>k<n. \<exists>w. exchange env (length (sent s) + k) = Some w \<and>
           \<not> is_success (response_from_dict w) \<and> \<not> is_error (response_from_dict w)"
  shows "\<exists>s'. command_loop env c rid a s = command_loop env c rid (a + n) s' \<and>
           connected s' \<and>
           length (sent s') = length (sent s) + n \<and>
           slept s' = slept s \<and>
           count_of (retry_engine s') rid = count_of (retry_engine s) rid + n"
  using assms
proof (induction n arbitrary: s a)
  case 0
  then show ?case by auto
next
  case (Suc n)
  from Suc.prems(2) obtain w where w: "exchange env (length (sent s)) = Some w"
    "\<not> is_success (response_from_dict w)" "\<not> is_error (response_from_dict w)"
    by force
  from loop_body_other_status [OF Suc.prems(1) w, of c rid "Suc a"]
  obtain s1 where b: "loop_body env c rid (Suc a) s = (Continue, s1)"
    and s1: "connected s1" "length (sent s1) = Suc (length (sent s))" "slept s1 = slept s"
      "count_of (retry_engine s1) rid = Suc (count_of (retry_engine s) rid)"
    using Suc.prems(1) by auto
  have "\<forall>k<n. \<exists>w. exchange env (length (sent s1) + k) = Some w \<and>
           \<not> is_success (response_from_dict w) \<and> \<not> is_error (response_from_dict w)"
  proof (intro allI impI)
    fix k assume "k < n"
    then have "Suc k < Suc n" by simp
    with Suc.prems(2) have "\<exists>w. exchange env (length (sent s) + Suc k) = Some w \<and>
           \<not> is_success (response_from_dict w) \<and> \<not> is_error (response_from_dict w)"
      by blast
    then show "\<exists>w. exchange env (length (sent s1) + k) = Some w \<and>
           \<not> is_success (response_from_dict w) \<and> \<not> is_error (response_from_dict w)"
      by (simp add: s1)
  qed
  from Suc.IH [OF s1(1) this, of "Suc a"]
  obtain s' where "command_loop env c rid (Suc a) s1 = command_loop env c rid (Suc a + n) s'"
    and "connected s'" "length (sent s') = length (sent s1) + n" "slept s' = slept s1"
      "count_of (retry_engine s') rid = count_of (retry_engine s1) rid + n"
    by blast
  with command_loop_Continue [OF b] s1 show ?case by auto
qed

lemma pending_reply_response:
  "\<not> is_success (response_from_dict pending_reply)"
  "\<not> is_error (response_from_dict pending_reply)"
  by (simp_all add: is_success_def is_error_def response_from_dict_def dict_get_def
                    pending_reply_def)

lemma stalling_editor_run:
  "\<exists>s'. execute_command stalling_editor (example_command ''req_1'') (new_dispatcher True)
          = Some (Inr (response_from_dict syntax_error_reply), s') \<and>
        length (sent s') = 1024 \<and> slept s' = [] \<and>
        count_of (retry_engine s') ''req_1'' = 1024"
proof -
  let ?c = "example_command ''req_1''"
  have c: "fst (assign_request_id stalling_editor ?c (new_dispatcher True)) = ?c"
    "request_id ?c = ''req_1''"
    by (simp_all add: assign_request_id_def example_command_def)
  from execute_command_start [of stalling_editor ?c "new_dispatcher True"]
  obtain s0 where run0: "execute_command stalling_editor ?c (new_dispatcher True) =
      command_loop stalling_editor
        (fst (assign_request_id stalling_editor ?c (new_dispatcher True)))
        (request_id (fst (assign_request_id stalling_editor ?c (new_dispatcher True)))) 0 s0"
    and s00: "connected s0 = connected (new_dispatcher True)"
      "retry_engine s0 = retry_engine (new_dispatcher True)"
      "sent s0 = sent (new_dispatcher True)" "slept s0 = slept (new_dispatcher True)"
    by blast
  from run0 have run: "execute_command stalling_editor ?c (new_dispatcher True) =
      command_loop stalling_editor ?c ''req_1'' 0 s0"
    by (simp only: c)
  from s00 have s0: "connected s0" "sent s0 = []" "slept s0 = []"
      "count_of (retry_engine s0) ''req_1'' = 0"
    by (simp_all add: new_dispatcher_def new_retry_engine_def count_of_def)
  have "\<forall>k<1023. \<exists>w. exchange stalling_editor (length (sent s0) + k) = Some w \<and>
           \<not> is_success (response_from_dict w) \<and> \<not> is_error (response_from_dict w)"
    by (simp add: s0 stalling_editor_def editor_def pending_reply_response)
  from command_loop_stall [OF s0(1) this, of ?c "''req_1''" 0]
  obtain s1 where r1: "command_loop stalling_editor ?c ''req_1'' 0 s0 =
      command_loop stalling_editor ?c ''req_1'' 1023 s1"
    and s1: "connected s1" "length (sent s1) = 1023" "slept s1 = []"
      "count_of (retry_engine s1) ''req_1'' = 1023"
    by (auto simp: s0)
  have "exchange stalling_editor (length (sent s1)) = Some syntax_error_reply"
    by (simp add: s1 stalling_editor_def editor_def)
  from loop_body_terminal_error [OF s1(1) this syntax_error_reply_response(1),
         of "''req_1''" ?c "Suc 1023"]
  obtain s' where b: "loop_body stalling_editor ?c ''req_1'' (Suc 1023) s1 =
      (Return (response_from_dict syntax_error_reply), s')"
    and s': "length (sent s') = 1024" "slept s' = []"
      "count_of (retry_engine s') ''req_1'' = 1024"
    by (auto simp: s1 syntax_error_reply_response)
  from command_loop_Return [OF b] run r1 s' show ?thesis by simp
qed

text \<open>
  C8. The delay is \<open>min(1.0 * 2^n, 10.0)\<close> for every count \<open>n\<close> below 1024
  (\<open>get_retry_delay_small\<close>, \<open>get_retry_delay_values\<close>, \<open>get_retry_delay_capped\<close>).
  At the count 1024 the call does not return 10.0: it raises \<open>OverflowError\<close>. The
  program reaches that count: 1023 replies with the status \<open>pending\<close> and then an
  error reply end one \<open>execute_command\<close> with 1024 recorded attempts for the id.
\<close>

theorem get_retry_delay_overflow:
  "get_retry_delay \<lparr>retry_count = [''req_1'' \<mapsto> 1024], retry_history = []\<rparr> ''req_1''
     = Inl OverflowError \<and>
   count_of (retry_engine (snd (the (execute_command stalling_editor
      (example_command ''req_1'') (new_dispatcher True))))) ''req_1'' = 1024 \<and>
   get_retry_delay (retry_engine (snd (the (execute_command stalling_editor
      (example_command ''req_1'') (new_dispatcher True))))) ''req_1''
     = Inl OverflowError"
proof -
  from stalling_editor_run obtain s' where
    "execute_command stalling_editor (example_command ''req_1'') (new_dispatcher True)
          = Some (Inr (response_from_dict syntax_error_reply), s')"
    and "count_of (retry_engine s') ''req_1'' = 1024"
    by blast
  then show ?thesis
    by (simp add: get_retry_delay_large)
       (simp add: get_retry_delay_def float_of_pow2_def count_of_def)
qed

end
